theory Spec2Isabelle
  imports Complex_Main "HOL-Library.AList"
begin

section \<open>Data model\<close>

text \<open>
  The rate-synchronisation pipeline of the repository: the fixed-income (CBR) and crypto
  (Binance) fetchers, the XML normaliser, the change-detecting upsert of the poller
  (\<open>app/tasks/task_poller.py\<close>) and of the older polling loop (\<open>app/services/parser.py\<close>),
  the NATS publisher and subscriber (\<open>app/nats\<close>) and the WebSocket connection manager
  (\<open>app/ws/ws_handler.py\<close>).

  A Python float is a value of \<open>pyfloat\<close>: a finite double, given by the real number it
  stands for, an infinity or NaN; every arithmetic operation rounds its exact result to the
  nearest double, ties to the even significand. Exceptions are values of \<open>py_error\<close>; a
  function that can raise returns the pair of the raised error (\<open>None\<close> when it returns
  normally) and the state it leaves behind.
\<close>

datatype py_error =
    KeyError
  | AttributeError
  | ZeroDivisionError
  | OverflowError
  | NatsConnectError
  | NatsPublishError

section \<open>Python floats\<close>

text \<open>
  IEEE 754 binary64 with the default rounding. The two zeros are one value: no modelled
  operation tells them apart.
\<close>

datatype pyfloat = Fin real | PInf | NInf | NaN

text \<open>The integer nearest to \<open>x\<close>; of two equally near integers, the even one.\<close>

definition round_even :: "real \<Rightarrow> int" where
  "round_even x =
     (let f = \<lfloor>x\<rfloor> in
      if x - of_int f < 1 / 2 then f
      else if 1 / 2 < x - of_int f then f + 1
      else if even f then f else f + 1)"

text \<open>
  The double nearest to the real \<open>x\<close>: a significand of 53 bits at the exponent of \<open>x\<close>,
  the spacing \<open>2 ^ -1074\<close> below the normal range, and an infinity once the rounded value
  reaches \<open>2 ^ 1024\<close>.
\<close>

definition round_double :: "real \<Rightarrow> pyfloat" where
  "round_double x =
     (if x = 0 then Fin 0
      else
        let e = max (\<lfloor>log 2 \<bar>x\<bar>\<rfloor> - 52) (- 1074);
            y = of_int (round_even (x / 2 powr of_int e)) * 2 powr of_int e
        in if 2 ^ 1024 \<le> \<bar>y\<bar> then (if 0 < x then PInf else NInf) else Fin y)"

text \<open>\<open>a - b\<close>, \<open>abs(a)\<close>, \<open>a < b\<close> and \<open>a * b\<close> on floats.\<close>

fun fl_sub :: "pyfloat \<Rightarrow> pyfloat \<Rightarrow> pyfloat" where
  "fl_sub NaN b = NaN"
| "fl_sub a NaN = NaN"
| "fl_sub PInf PInf = NaN"
| "fl_sub NInf NInf = NaN"
| "fl_sub PInf b = PInf"
| "fl_sub NInf b = NInf"
| "fl_sub (Fin x) PInf = NInf"
| "fl_sub (Fin x) NInf = PInf"
| "fl_sub (Fin x) (Fin y) = round_double (x - y)"

fun fl_abs :: "pyfloat \<Rightarrow> pyfloat" where
  "fl_abs (Fin x) = Fin \<bar>x\<bar>"
| "fl_abs PInf = PInf"
| "fl_abs NInf = PInf"
| "fl_abs NaN = NaN"

fun fl_lt :: "pyfloat \<Rightarrow> pyfloat \<Rightarrow> bool" where
  "fl_lt NaN b = False"
| "fl_lt a NaN = False"
| "fl_lt (Fin x) (Fin y) = (x < y)"
| "fl_lt (Fin x) PInf = True"
| "fl_lt (Fin x) NInf = False"
| "fl_lt PInf b = False"
| "fl_lt NInf NInf = False"
| "fl_lt NInf b = True"

fun fl_mul :: "pyfloat \<Rightarrow> pyfloat \<Rightarrow> pyfloat" where
  "fl_mul NaN b = NaN"
| "fl_mul a NaN = NaN"
| "fl_mul (Fin x) (Fin y) = round_double (x * y)"
| "fl_mul (Fin x) PInf = (if x = 0 then NaN else if 0 < x then PInf else NInf)"
| "fl_mul (Fin x) NInf = (if x = 0 then NaN else if 0 < x then NInf else PInf)"
| "fl_mul PInf (Fin y) = (if y = 0 then NaN else if 0 < y then PInf else NInf)"
| "fl_mul NInf (Fin y) = (if y = 0 then NaN else if 0 < y then NInf else PInf)"
| "fl_mul PInf PInf = PInf"
| "fl_mul PInf NInf = NInf"
| "fl_mul NInf PInf = NInf"
| "fl_mul NInf NInf = PInf"

text \<open>
  \<open>a / n\<close> for a float \<open>a\<close> and an int \<open>n\<close>: the int is converted to a float, which raises
  \<open>OverflowError\<close> when it is too large; division by zero raises \<open>ZeroDivisionError\<close>.
\<close>

fun fl_div_finite :: "pyfloat \<Rightarrow> real \<Rightarrow> pyfloat" where
  "fl_div_finite NaN y = NaN"
| "fl_div_finite PInf y = (if 0 < y then PInf else NInf)"
| "fl_div_finite NInf y = (if 0 < y then NInf else PInf)"
| "fl_div_finite (Fin x) y = round_double (x / y)"

definition py_truediv :: "pyfloat \<Rightarrow> int \<Rightarrow> py_error + pyfloat" where
  "py_truediv a n =
     (case round_double (of_int n) of
        Fin y \<Rightarrow> if y = 0 then Inl ZeroDivisionError else Inr (fl_div_finite a y)
      | _ \<Rightarrow> Inl OverflowError)"

text \<open>The literal \<open>1e-9\<close>: the double nearest to \<open>10 ^ -9\<close>, the tolerance of both upserts.\<close>

definition eps :: pyfloat where
  "eps = Fin (4835703278458517 / 2 ^ 82)"

section \<open>Records\<close>

text \<open>\<open>ItemModel\<close> of \<open>app/models/item_model.py\<close>; \<open>item_id\<close> is its column \<open>id\<close>.\<close>

record ItemModel =
  item_id :: "nat option"
  currency :: string
  rate :: pyfloat
  amount :: int
  platform :: string
  crypto_currency :: bool
  last_updated_time :: nat

text \<open>
  The dictionary \<open>{"rate": ..., "amount": ..., "platform": ...}\<close> that the fetchers build for
  one code. \<open>upsert_item\<close> reads \<open>data["rate"]\<close> and \<open>data.get\<close> of the two other keys, so each
  key may be absent.
\<close>

record rate_data =
  d_rate :: "pyfloat option"
  d_amount :: "int option"
  d_platform :: "string option"

text \<open>
  The event payload \<open>{"type": ..., "item": {...}}\<close>. A payload received from the bus is any
  JSON object, so every key may be absent; \<open>ev_item\<close> is \<open>None\<close> when the key \<open>item\<close> is
  absent or is not a dictionary.
\<close>

record wire_item =
  w_currency :: "string option"
  w_rate :: "pyfloat option"
  w_amount :: "int option"
  w_platform :: "string option"
  w_crypto_currency :: "bool option"

record event =
  ev_type :: "string option"
  ev_item :: "wire_item option"

text \<open>The lines the code prints, one constructor for each \<open>print\<close> call.\<close>

datatype log_line =
    WsConnectedLog nat
  | WsDisconnectedLog nat
  | WsRemovedDeadLog nat
  | WsBroadcastFailedLog
  | NatsPublisherConnectedLog
  | NatsPublishErrorLog string
  | NatsPublishFailedLog
  | NatsParseErrorLog
  | NatsItemLog string string
  | WsBroadcastErrorLog
  | CbrErrorLog
  | BinanceErrorLog string

text \<open>
  An element of \<open>xml.etree.ElementTree\<close>: its tag, its \<open>text\<close> attribute (\<open>None\<close> when the
  element has no text) and its child elements in document order.
\<close>

datatype element = Element (tag: string) (elem_text: "string option") (children: "element list")

text \<open>
  The answer to \<open>client.get\<close> followed by \<open>raise_for_status\<close>: either of the two raised,
  or the body arrived. The body is given by what \<open>ET.fromstring\<close> makes of it: \<open>None\<close> when
  it raises (the bytes are not a well-formed document), the root element otherwise.
\<close>

datatype http_reply = HttpFailed | HttpOk "element option"

datatype http_call = CbrGet "string option" | BinanceGet string

text \<open>A dictionary from codes to rate entries, in insertion order.\<close>

type_synonym rates = "(string \<times> rate_data) list"

text \<open>
  Python's \<open>float(s)\<close> and \<open>int(s)\<close> on a string: \<open>None\<close> when they raise \<open>ValueError\<close>.
\<close>

record pylib =
  py_float :: "string \<Rightarrow> pyfloat option"
  py_int :: "string \<Rightarrow> int option"

record date =
  year :: nat
  month :: nat
  day :: nat

text \<open>
  The constants of \<open>app/config.py\<close> that the modelled functions read; the module is taken
  as a parameter.
\<close>

record config =
  CRYPTO_CODES :: "string list"
  CURRENCY :: "string list"
  CBR_PLATFORM :: string
  CRYPTO_PLATFORM :: string

text \<open>
  What the surroundings answer to one call: whether \<open>ws.send_json\<close> succeeds for a
  WebSocket, whether the NATS client's \<open>connect\<close>, \<open>publish\<close> and \<open>flush\<close> succeed, what the
  fixed-income endpoint answers (for the date in the URL, \<open>None\<close> for the undated URL of the
  poller), and the price the crypto endpoint gives for a pair (\<open>None\<close> when the request,
  its status check or the decoding of the price raises).
\<close>

record env =
  send_ok :: "nat \<Rightarrow> bool"
  nats_connect_ok :: bool
  nats_publish_ok :: bool
  nats_flush_ok :: bool
  cbr_reply :: "string option \<Rightarrow> http_reply"
  binance_price :: "string \<Rightarrow> pyfloat option"

text \<open>
  The state of one process: the item table keyed by its unique column \<open>currency\<close>, the
  number of \<open>db.commit()\<close> calls, the connection manager (\<open>active\<close>, \<open>has_clients\<close>), the NATS
  publisher's client (\<open>None\<close> when there is none, otherwise its \<open>is_connected\<close>), and the
  traces of what left the process: every \<open>jsonable_encoder\<close> call, every \<open>send_json\<close> call
  with its outcome, every message handed over to the NATS server, every payload built by
  \<open>emit_event\<close> or \<open>broadcast_event\<close>, the printed lines, the module-level \<open>_rates_cache\<close>
  of \<open>app/services/parser.py\<close> and every HTTP request made.
\<close>

record world =
  rows :: "string \<rightharpoonup> ItemModel"
  next_id :: nat
  commits :: nat
  active :: "nat list"
  has_clients :: bool
  encoded :: "event list"
  ws_calls :: "(nat \<times> event \<times> bool) list"
  nats_client :: "bool option"
  nats_out :: "(string \<times> event) list"
  emitted :: "event list"
  log_lines :: "log_line list"
  rates_cache :: "string \<rightharpoonup> rates"
  http_calls :: "http_call list"

definition print_line :: "log_line \<Rightarrow> world \<Rightarrow> world" where
  "print_line l w = w\<lparr>log_lines := log_lines w @ [l]\<rparr>"

section \<open>The connection manager (\<open>app/ws/ws_handler.py\<close>)\<close>

text \<open>
  \<open>active\<close> is a Python set; the list holds its elements in the order the set iterates
  them. \<open>connect\<close> adds a handle once, \<open>disconnect\<close> discards it.
\<close>

definition connect :: "nat \<Rightarrow> world \<Rightarrow> world" where
  "connect ws w =
     print_line (WsConnectedLog ws) (w\<lparr>active := List.insert ws (active w), has_clients := True\<rparr>)"

definition disconnect :: "nat \<Rightarrow> world \<Rightarrow> world" where
  "disconnect ws w =
     (let w1 = print_line (WsDisconnectedLog ws) (w\<lparr>active := removeAll ws (active w)\<rparr>)
      in if active w1 = [] then w1\<lparr>has_clients := False\<rparr> else w1)"

text \<open>The first loop of \<open>broadcast\<close>: one \<open>send_json\<close> for each handle of the snapshot.\<close>

fun send_all :: "env \<Rightarrow> event \<Rightarrow> nat list \<Rightarrow> world \<Rightarrow> nat list \<Rightarrow> world \<times> nat list" where
  "send_all e data [] w bad = (w, bad)"
| "send_all e data (ws # rest) w bad =
     (if send_ok e ws
      then send_all e data rest (w\<lparr>ws_calls := ws_calls w @ [(ws, data, True)]\<rparr>) bad
      else send_all e data rest (w\<lparr>ws_calls := ws_calls w @ [(ws, data, False)]\<rparr>) (bad @ [ws]))"

text \<open>The second loop of \<open>broadcast\<close>: the collected handles are disconnected.\<close>

fun drop_bad :: "nat list \<Rightarrow> world \<Rightarrow> world" where
  "drop_bad [] w = w"
| "drop_bad (ws # rest) w = drop_bad rest (print_line (WsRemovedDeadLog ws) (disconnect ws w))"

definition broadcast :: "env \<Rightarrow> event \<Rightarrow> world \<Rightarrow> world" where
  "broadcast e message w =
     (if active w = [] then w
      else
        let w1 = w\<lparr>encoded := encoded w @ [message]\<rparr>;
            (w2, bad_connections) = send_all e message (active w1) w1 []
        in drop_bad bad_connections w2)"

section \<open>The NATS publisher (\<open>app/nats/nats_pub.py\<close>)\<close>

definition nats_connect :: "env \<Rightarrow> world \<Rightarrow> py_error option \<times> world" where
  "nats_connect e w =
     (if nats_client w = Some True then (None, w)
      else if nats_connect_ok e
        then (None, print_line NatsPublisherConnectedLog (w\<lparr>nats_client := Some True\<rparr>))
        else (Some NatsConnectError, w))"

text \<open>
  \<open>publish\<close> reconnects outside its \<open>try\<close>, so a failed reconnect is raised as it is; a failed
  \<open>client.publish\<close> or \<open>client.flush\<close> is printed and raised again by the bare \<open>raise\<close>.
\<close>

definition publish :: "env \<Rightarrow> string \<Rightarrow> event \<Rightarrow> world \<Rightarrow> py_error option \<times> world" where
  "publish e subject message w =
     (case (if nats_client w \<noteq> Some True then nats_connect e w else (None, w)) of
        (Some err, w1) \<Rightarrow> (Some err, w1)
      | (None, w1) \<Rightarrow>
          if nats_publish_ok e then
            let w2 = w1\<lparr>nats_out := nats_out w1 @ [(subject, message)]\<rparr>
            in if nats_flush_ok e then (None, w2)
               else (Some NatsPublishError, print_line (NatsPublishErrorLog subject) w2)
          else (Some NatsPublishError, print_line (NatsPublishErrorLog subject) w1))"

section \<open>Events and the upsert of the poller (\<open>app/tasks/task_poller.py\<close>)\<close>

definition payload_of :: "string \<Rightarrow> ItemModel \<Rightarrow> event" where
  "payload_of event_type item =
     \<lparr>ev_type = Some event_type,
      ev_item = Some \<lparr>w_currency = Some (currency item), w_rate = Some (rate item),
                      w_amount = Some (amount item), w_platform = Some (platform item),
                      w_crypto_currency = Some (crypto_currency item)\<rparr>\<rparr>"

text \<open>
  \<open>emit_event\<close> wraps each of its two calls in \<open>try/except Exception\<close>: \<open>broadcast\<close> does not
  raise, and an error raised by \<open>publish\<close> is printed and dropped.
\<close>

definition emit_event :: "env \<Rightarrow> string \<Rightarrow> ItemModel \<Rightarrow> world \<Rightarrow> world" where
  "emit_event e event_type item w =
     (let payload = payload_of event_type item;
          w0 = w\<lparr>emitted := emitted w @ [payload]\<rparr>;
          w1 = broadcast e payload w0
      in case publish e ''items.updates'' payload w1 of
           (None, w2) \<Rightarrow> w2
         | (Some err, w2) \<Rightarrow> print_line NatsPublishFailedLog w2)"

definition get_or :: "'a option \<Rightarrow> 'a \<Rightarrow> 'a" where
  "get_or v dflt = (case v of None \<Rightarrow> dflt | Some x \<Rightarrow> x)"

text \<open>
  \<open>upsert_item\<close> of the poller. \<open>now\<close> is what \<open>datetime.utcnow()\<close> returns during the call.
  \<open>data["rate"]\<close> raises \<open>KeyError\<close> when the key is absent, before anything is written.
\<close>

definition upsert_item ::
  "config \<Rightarrow> env \<Rightarrow> nat \<Rightarrow> string \<Rightarrow> rate_data \<Rightarrow> world \<Rightarrow> py_error option \<times> world" where
  "upsert_item cfg e now cur data w =
     (let crypto = (cur \<in> set (CRYPTO_CODES cfg)) in
      case rows w cur of
        None \<Rightarrow>
          (case d_rate data of
             None \<Rightarrow> (Some KeyError, w)
           | Some r \<Rightarrow>
               let item = \<lparr>item_id = Some (next_id w), currency = cur, rate = r,
                            amount = get_or (d_amount data) 1,
                            platform = get_or (d_platform data) '''',
                            crypto_currency = crypto, last_updated_time = now\<rparr>;
                   w1 = w\<lparr>rows := (rows w)(cur \<mapsto> item), next_id := next_id w + 1,
                          commits := commits w + 1\<rparr>
               in (None, emit_event e ''created'' item w1))
      | Some item \<Rightarrow>
          (case d_rate data of
             None \<Rightarrow> (Some KeyError, w)
           | Some r \<Rightarrow>
               if fl_lt (fl_abs (fl_sub (rate item) r)) eps then (None, w)
               else
                 let item' = item\<lparr>rate := r,
                                  amount := get_or (d_amount data) (amount item),
                                  platform := get_or (d_platform data) (platform item),
                                  crypto_currency := crypto, last_updated_time := now\<rparr>;
                     w1 = w\<lparr>rows := (rows w)(cur \<mapsto> item'), commits := commits w + 1\<rparr>
                 in (None, emit_event e ''updated'' item' w1)))"

section \<open>The upsert of the older polling loop (\<open>app/services/parser.py\<close>)\<close>

definition broadcast_event :: "env \<Rightarrow> string \<Rightarrow> ItemModel \<Rightarrow> world \<Rightarrow> world" where
  "broadcast_event e event_type item w =
     (let payload = payload_of event_type item;
          w0 = w\<lparr>emitted := emitted w @ [payload]\<rparr>
      in broadcast e payload w0)"

definition parser_upsert_item ::
  "config \<Rightarrow> env \<Rightarrow> nat \<Rightarrow> string \<Rightarrow> rate_data \<Rightarrow> world \<Rightarrow> py_error option \<times> world" where
  "parser_upsert_item cfg e now cur data w =
     (let crypto = (cur \<in> set (CRYPTO_CODES cfg)) in
      case rows w cur of
        None \<Rightarrow>
          (case d_rate data of
             None \<Rightarrow> (Some KeyError, w)
           | Some r \<Rightarrow>
               let item = \<lparr>item_id = Some (next_id w), currency = cur, rate = r,
                            amount = get_or (d_amount data) 1,
                            platform = get_or (d_platform data) '''',
                            crypto_currency = crypto, last_updated_time = now\<rparr>;
                   w1 = w\<lparr>rows := (rows w)(cur \<mapsto> item), next_id := next_id w + 1,
                          commits := commits w + 1\<rparr>
               in (None, broadcast_event e ''created'' item w1))
      | Some item \<Rightarrow>
          (case d_rate data of
             None \<Rightarrow> (Some KeyError, w)
           | Some r \<Rightarrow>
               if fl_lt (fl_abs (fl_sub (rate item) r)) eps then (None, w)
               else
                 let item' = item\<lparr>rate := r,
                                  amount := get_or (d_amount data) (amount item),
                                  platform := get_or (d_platform data) (platform item),
                                  crypto_currency := crypto, last_updated_time := now\<rparr>;
                     w1 = w\<lparr>rows := (rows w)(cur \<mapsto> item'), commits := commits w + 1\<rparr>
                 in (None, broadcast_event e ''updated'' item' w1)))"

section \<open>The NATS subscriber (\<open>app/nats/nats_sub.py\<close>)\<close>

text \<open>
  \<open>_upsert_item\<close>. It assigns the four received fields and commits; the timestamp of an
  existing row is left to the column's \<open>onupdate\<close>, which fires when the row changes.
\<close>

definition nats_upsert_item :: "nat \<Rightarrow> wire_item \<Rightarrow> world \<Rightarrow> py_error option \<times> world" where
  "nats_upsert_item now item w =
     (case w_currency item of
        None \<Rightarrow> (Some KeyError, w)
      | Some cur \<Rightarrow>
          (case rows w cur of
             None \<Rightarrow>
               let model = \<lparr>item_id = Some (next_id w), currency = cur,
                             rate = get_or (w_rate item) (Fin 0),
                             amount = get_or (w_amount item) 1,
                             platform = get_or (w_platform item) '''',
                             crypto_currency = get_or (w_crypto_currency item) False,
                             last_updated_time = now\<rparr>;
                   w1 = w\<lparr>rows := (rows w)(cur \<mapsto> model), next_id := next_id w + 1,
                          commits := commits w + 1\<rparr>
               in (None, print_line (NatsItemLog ''created'' cur) w1)
           | Some model \<Rightarrow>
               let model' = model\<lparr>rate := get_or (w_rate item) (rate model),
                                    amount := get_or (w_amount item) (amount model),
                                    platform := get_or (w_platform item) (platform model),
                                    crypto_currency :=
                                      get_or (w_crypto_currency item) (crypto_currency model)\<rparr>;
                   model'' = (if model' = model then model
                              else model'\<lparr>last_updated_time := now\<rparr>);
                   w1 = w\<lparr>rows := (rows w)(cur \<mapsto> model''), commits := commits w + 1\<rparr>
               in (None, print_line (NatsItemLog ''updated'' (currency model'')) w1)))"

text \<open>
  A message of the subject \<open>items.updates\<close>, given by what \<open>json.loads\<close> makes of it: it
  raises, or it returns something that is not a dictionary (then \<open>data.get\<close> raises
  \<open>AttributeError\<close>), or it returns a dictionary. The \<open>try/except\<close> around the final
  \<open>broadcast\<close> has nothing to catch, since \<open>broadcast\<close> does not raise.
\<close>

datatype nats_msg = Undecodable | NonObject | Object event

definition on_message :: "env \<Rightarrow> nat \<Rightarrow> nats_msg \<Rightarrow> world \<Rightarrow> py_error option \<times> world" where
  "on_message e now msg w =
     (case msg of
        Undecodable \<Rightarrow> (None, print_line NatsParseErrorLog w)
      | NonObject \<Rightarrow> (Some AttributeError, w)
      | Object data \<Rightarrow>
          (case ev_item data of
             None \<Rightarrow> (None, w)
           | Some item_data \<Rightarrow>
               (case w_currency item_data of
                  None \<Rightarrow> (None, w)
                | Some cur \<Rightarrow>
                    if cur = [] then (None, w)
                    else
                      (case nats_upsert_item now item_data w of
                         (Some err, w1) \<Rightarrow> (Some err, w1)
                       | (None, w1) \<Rightarrow> (None, broadcast e data w1)))))"

section \<open>The normaliser (\<open>parse_cbr_xml\<close> of \<open>app/services/parser.py\<close>)\<close>

text \<open>\<open>root.findall(".//Valute")\<close> walks the elements below the root in document order.\<close>

fun descendants :: "element \<Rightarrow> element list" where
  "descendants (Element t x cs) = concat (map (\<lambda>c. c # descendants c) cs)"

definition findall :: "string \<Rightarrow> element \<Rightarrow> element list" where
  "findall name doc = filter (\<lambda>el. tag el = name) (descendants doc)"

definition find_child :: "string \<Rightarrow> element \<Rightarrow> element option" where
  "find_child name el = List.find (\<lambda>c. tag c = name) (children el)"

text \<open>
  The truth value of what \<open>find\<close> returns: \<open>None\<close> is false, and an element is true exactly
  when it has child elements (\<open>Element.__bool__\<close> is \<open>len(self) != 0\<close>).
\<close>

definition truthy :: "element option \<Rightarrow> bool" where
  "truthy n = (case n of None \<Rightarrow> False | Some el \<Rightarrow> children el \<noteq> [])"

definition py_or :: "element option \<Rightarrow> element option \<Rightarrow> element option" where
  "py_or a b = (if truthy a then a else b)"

text \<open>
  A character is a code point below 256; \<open>is_space\<close> holds of those that \<open>str.strip()\<close>
  removes.
\<close>

definition is_space :: "char \<Rightarrow> bool" where
  "is_space c = (c \<in> set [CHR '' '', CHR 0x09, CHR 0x0A, CHR 0x0B, CHR 0x0C, CHR 0x0D,
                            CHR 0x1C, CHR 0x1D, CHR 0x1E, CHR 0x1F, CHR 0x85, CHR 0xA0])"

definition strip :: "string \<Rightarrow> string" where
  "strip s = rev (dropWhile is_space (rev (dropWhile is_space s)))"

definition replace_comma :: "string \<Rightarrow> string" where
  "replace_comma s = map (\<lambda>c. if c = CHR '','' then CHR ''.'' else c) s"

text \<open>
  The two statements of the \<open>try\<close> block; \<open>None\<close> stands for any exception they raise
  (\<open>AttributeError\<close> on a missing node, \<open>AttributeError\<close> or \<open>TypeError\<close> on a missing text,
  \<open>ValueError\<close> on text that is not a number), all caught by \<open>except Exception: continue\<close>.
\<close>

definition read_value :: "pylib \<Rightarrow> element option \<Rightarrow> pyfloat option" where
  "read_value lib value_node =
     (case value_node of
        None \<Rightarrow> None
      | Some n \<Rightarrow> (case elem_text n of None \<Rightarrow> None | Some t \<Rightarrow> py_float lib (replace_comma t)))"

definition read_amount :: "pylib \<Rightarrow> element option \<Rightarrow> int option" where
  "read_amount lib amount_node =
     (case amount_node of
        None \<Rightarrow> Some 1
      | Some n \<Rightarrow> (case elem_text n of None \<Rightarrow> None | Some t \<Rightarrow> py_int lib t))"

text \<open>
  The loop over the \<open>Valute\<close> elements. The division \<open>value / amount\<close> stands after the
  \<open>try\<close> block, so what it raises leaves the function.
\<close>

fun parse_valutes ::
  "pylib \<Rightarrow> config \<Rightarrow> string list \<Rightarrow> element list \<Rightarrow> rates \<Rightarrow> py_error + rates" where
  "parse_valutes lib cfg allowed [] result = Inr result"
| "parse_valutes lib cfg allowed (valute # rest) result =
     (case find_child ''CharCode'' valute of
        None \<Rightarrow> parse_valutes lib cfg allowed rest result
      | Some code_node \<Rightarrow>
          if elem_text code_node = None \<or> elem_text code_node = Some []
          then parse_valutes lib cfg allowed rest result
          else
            let cur = strip (the (elem_text code_node)) in
            if cur \<notin> set allowed then parse_valutes lib cfg allowed rest result
            else
              let value_node = py_or (find_child ''Value'' valute) (find_child ''VunitRate'' valute);
                  amount_node = find_child ''amount'' valute
              in (case read_value lib value_node of
                    None \<Rightarrow> parse_valutes lib cfg allowed rest result
                  | Some v \<Rightarrow>
                      (case read_amount lib amount_node of
                         None \<Rightarrow> parse_valutes lib cfg allowed rest result
                       | Some a \<Rightarrow>
                           (case py_truediv v a of
                              Inl err \<Rightarrow> Inl err
                            | Inr q \<Rightarrow>
                                parse_valutes lib cfg allowed rest
                                  (AList.update cur
                                     \<lparr>d_rate = Some q, d_amount = Some a,
                                      d_platform = Some (CBR_PLATFORM cfg)\<rparr> result)))))"

definition parse_cbr_xml ::
  "pylib \<Rightarrow> config \<Rightarrow> element option \<Rightarrow> string list \<Rightarrow> py_error + rates" where
  "parse_cbr_xml lib cfg xml allowed_codes =
     (case xml of
        None \<Rightarrow> Inr []
      | Some doc \<Rightarrow> parse_valutes lib cfg allowed_codes (findall ''Valute'' doc) [])"

section \<open>The fetchers\<close>

text \<open>\<open>rates.update(other)\<close> and \<open>{**rates, **other}\<close>: the items of \<open>other\<close> are stored in turn.\<close>

definition dict_update :: "rates \<Rightarrow> rates \<Rightarrow> rates" where
  "dict_update rs other = fold (\<lambda>(k, v). AList.update k v) other rs"

definition base_entry :: "config \<Rightarrow> real \<Rightarrow> rates" where
  "base_entry cfg r =
     [(''RUB'', \<lparr>d_rate = Some (Fin r), d_amount = Some 1,
                d_platform = Some (CBR_PLATFORM cfg)\<rparr>)]"

text \<open>\<open>fetch_cbr\<close> of \<open>app/tasks/task_poller.py\<close>.\<close>

definition fetch_cbr ::
  "pylib \<Rightarrow> config \<Rightarrow> env \<Rightarrow> string list \<Rightarrow> world \<Rightarrow> (py_error + rates) \<times> world" where
  "fetch_cbr lib cfg e wanted w =
     (let w1 = w\<lparr>http_calls := http_calls w @ [CbrGet None]\<rparr> in
      case cbr_reply e None of
        HttpFailed \<Rightarrow> (Inr (base_entry cfg 1), print_line CbrErrorLog w1)
      | HttpOk content \<Rightarrow>
          (case parse_cbr_xml lib cfg content wanted of
             Inl err \<Rightarrow> (Inl err, w1)
           | Inr parsed \<Rightarrow> (Inr (dict_update (base_entry cfg 1) parsed), w1)))"

text \<open>\<open>format_cbr_date\<close>: \<open>strftime("%d/%m/%Y")\<close>, for a year of four digits.\<close>

fun digits :: "nat \<Rightarrow> string" where
  "digits n = (if n < 10 then [''0123456789'' ! n]
               else digits (n div 10) @ [''0123456789'' ! (n mod 10)])"

declare digits.simps [simp del]

definition pad2 :: "nat \<Rightarrow> string" where
  "pad2 n = (if n < 10 then CHR ''0'' # digits n else digits n)"

definition format_cbr_date :: "date \<Rightarrow> string" where
  "format_cbr_date dt = pad2 (day dt) @ ''/'' @ pad2 (month dt) @ ''/'' @ digits (year dt)"

text \<open>\<open>fetch_cbr_rates_sync\<close> of \<open>app/services/parser.py\<close>, with its cache.\<close>

definition fetch_cbr_rates_sync ::
  "pylib \<Rightarrow> config \<Rightarrow> env \<Rightarrow> date \<Rightarrow> world \<Rightarrow> (py_error + rates) \<times> world" where
  "fetch_cbr_rates_sync lib cfg e dt w =
     (let date_key = format_cbr_date dt in
      case rates_cache w date_key of
        Some cached \<Rightarrow> (Inr cached, w)
      | None \<Rightarrow>
          let w1 = w\<lparr>http_calls := http_calls w @ [CbrGet (Some date_key)]\<rparr> in
          (case cbr_reply e (Some date_key) of
             HttpFailed \<Rightarrow>
               let w2 = print_line CbrErrorLog w1;
                   fallback = base_entry cfg 80
               in (Inr fallback, w2\<lparr>rates_cache := (rates_cache w2)(date_key \<mapsto> fallback)\<rparr>)
           | HttpOk content \<Rightarrow>
               (case parse_cbr_xml lib cfg content (CURRENCY cfg) of
                  Inl err \<Rightarrow> (Inl err, w1)
                | Inr parsed \<Rightarrow>
                    let rs = dict_update (base_entry cfg 1) parsed
                    in (Inr rs, w1\<lparr>rates_cache := (rates_cache w1)(date_key \<mapsto> rs)\<rparr>))))"

text \<open>
  \<open>fetch_binance\<close> of the poller and \<open>fetch_crypto_rates_sync\<close> of the older loop; they
  differ in the platform they write when \<open>CRYPTO_PLATFORM\<close> is empty.
\<close>

fun fetch_crypto ::
  "string \<Rightarrow> config \<Rightarrow> env \<Rightarrow> string list \<Rightarrow> pyfloat \<Rightarrow> rates \<Rightarrow> world \<Rightarrow> rates \<times> world" where
  "fetch_crypto dflt cfg e [] usd_rub result w = (result, w)"
| "fetch_crypto dflt cfg e (symb # rest) usd_rub result w =
     (let pair = symb @ ''USDT'';
          w1 = w\<lparr>http_calls := http_calls w @ [BinanceGet pair]\<rparr>
      in case binance_price e pair of
           None \<Rightarrow> fetch_crypto dflt cfg e rest usd_rub result (print_line (BinanceErrorLog pair) w1)
         | Some price \<Rightarrow>
             fetch_crypto dflt cfg e rest usd_rub
               (AList.update symb
                  \<lparr>d_rate = Some (fl_mul price usd_rub), d_amount = Some 1,
                   d_platform = Some (if CRYPTO_PLATFORM cfg = [] then dflt
                                      else CRYPTO_PLATFORM cfg)\<rparr> result) w1)"

definition fetch_binance ::
  "config \<Rightarrow> env \<Rightarrow> string list \<Rightarrow> pyfloat \<Rightarrow> world \<Rightarrow> rates \<times> world" where
  "fetch_binance cfg e symbols usd_rub w = fetch_crypto ''Binance'' cfg e symbols usd_rub [] w"

definition fetch_crypto_rates_sync ::
  "config \<Rightarrow> env \<Rightarrow> string list \<Rightarrow> pyfloat \<Rightarrow> world \<Rightarrow> rates \<times> world" where
  "fetch_crypto_rates_sync cfg e symbols usd_rub_rate w =
     fetch_crypto ''binance'' cfg e symbols usd_rub_rate [] w"

section \<open>One poll cycle\<close>

text \<open>\<open>rates.get("USD", {}).get("rate", 80.0)\<close>.\<close>

definition usd_rate :: "rates \<Rightarrow> pyfloat" where
  "usd_rate rs =
     (case map_of rs ''USD'' of None \<Rightarrow> Fin 80 | Some d \<Rightarrow> get_or (d_rate d) (Fin 80))"

text \<open>\<open>{**rates, **crypto}\<close>, the merge of both cycles.\<close>

definition merge_rates :: "rates \<Rightarrow> rates \<Rightarrow> rates" where
  "merge_rates cbr crypto = dict_update cbr crypto"

fun upsert_all ::
  "config \<Rightarrow> env \<Rightarrow> nat \<Rightarrow> rates \<Rightarrow> world \<Rightarrow> py_error option \<times> world" where
  "upsert_all cfg e now [] w = (None, w)"
| "upsert_all cfg e now ((cur, data) # rest) w =
     (case upsert_item cfg e now cur data w of
        (Some err, w1) \<Rightarrow> (Some err, w1)
      | (None, w1) \<Rightarrow> upsert_all cfg e now rest w1)"

text \<open>\<open>Poller.run_once\<close>.\<close>

definition run_once :: "pylib \<Rightarrow> config \<Rightarrow> env \<Rightarrow> nat \<Rightarrow> world \<Rightarrow> py_error option \<times> world" where
  "run_once lib cfg e now w =
     (case fetch_cbr lib cfg e (CURRENCY cfg) w of
        (Inl err, w1) \<Rightarrow> (Some err, w1)
      | (Inr rs, w1) \<Rightarrow>
          let usd = usd_rate rs;
              (crypto, w2) = fetch_binance cfg e (CRYPTO_CODES cfg) usd w1;
              combined = merge_rates rs crypto
          in upsert_all cfg e now combined w2)"

fun parser_upsert_all ::
  "config \<Rightarrow> env \<Rightarrow> nat \<Rightarrow> rates \<Rightarrow> world \<Rightarrow> py_error option \<times> world" where
  "parser_upsert_all cfg e now [] w = (None, w)"
| "parser_upsert_all cfg e now ((cur, data) # rest) w =
     (case parser_upsert_item cfg e now cur data w of
        (Some err, w1) \<Rightarrow> (Some err, w1)
      | (None, w1) \<Rightarrow> parser_upsert_all cfg e now rest w1)"

text \<open>
  The body of the \<open>try\<close> of \<open>poll_loop\<close>, up to the sleep; \<open>today\<close> is the date of \<open>now\<close>.
\<close>

definition poll_loop_body ::
  "pylib \<Rightarrow> config \<Rightarrow> env \<Rightarrow> date \<Rightarrow> nat \<Rightarrow> world \<Rightarrow> py_error option \<times> world" where
  "poll_loop_body lib cfg e today now w =
     (case fetch_cbr_rates_sync lib cfg e today w of
        (Inl err, w1) \<Rightarrow> (Some err, w1)
      | (Inr cbr_rates, w1) \<Rightarrow>
          let usd = usd_rate cbr_rates;
              (crypto_rates, w2) = fetch_crypto_rates_sync cfg e (CRYPTO_CODES cfg) usd w1;
              all_rates = merge_rates cbr_rates crypto_rates
          in parser_upsert_all cfg e now all_rates w2)"

section \<open>Concrete scenarios\<close>

text \<open>
  A fresh process, surroundings in which every call succeeds, and the inputs at which the
  theorems below are evaluated.
\<close>

definition world0 :: world where
  "world0 =
     \<lparr>rows = Map.empty, next_id = 1, commits = 0, active = [], has_clients = False,
      encoded = [], ws_calls = [], nats_client = None, nats_out = [], emitted = [],
      log_lines = [], rates_cache = Map.empty, http_calls = []\<rparr>"

definition env_ok :: env where
  "env_ok =
     \<lparr>send_ok = (\<lambda>ws. True), nats_connect_ok = True, nats_publish_ok = True,
      nats_flush_ok = True, cbr_reply = (\<lambda>d. HttpFailed), binance_price = (\<lambda>p. None)\<rparr>"

definition config0 :: config where
  "config0 =
     \<lparr>CRYPTO_CODES = [''BTC'', ''ETH''], CURRENCY = [''USD'', ''EUR''],
      CBR_PLATFORM = ''CBR'', CRYPTO_PLATFORM = ''Binance''\<rparr>"

definition usd_item :: ItemModel where
  "usd_item =
     \<lparr>item_id = Some 1, currency = ''USD'', rate = Fin 90, amount = 1, platform = ''CBR'',
      crypto_currency = False, last_updated_time = 5\<rparr>"

text \<open>Subscribers \<open>1\<close> and \<open>2\<close> are connected; the send to subscriber \<open>2\<close> raises.\<close>

definition two_subscribers :: world where
  "two_subscribers = connect 1 (connect 2 world0)"

definition env_second_fails :: env where
  "env_second_fails = env_ok\<lparr>send_ok := (\<lambda>ws. ws \<noteq> 2)\<rparr>"

text \<open>The stored item after the assignments of the update branch of \<open>upsert_item\<close>.\<close>

definition updated_item ::
  "config \<Rightarrow> nat \<Rightarrow> string \<Rightarrow> rate_data \<Rightarrow> pyfloat \<Rightarrow> ItemModel \<Rightarrow> ItemModel" where
  "updated_item cfg now cur data r item =
     item\<lparr>rate := r, amount := get_or (d_amount data) (amount item),
          platform := get_or (d_platform data) (platform item),
          crypto_currency := (cur \<in> set (CRYPTO_CODES cfg)), last_updated_time := now\<rparr>"

text \<open>
  The table holds \<open>USD\<close> at rate 90. One incoming record repeats the rate with another
  amount and platform, the other brings the rate 91.5.
\<close>

definition world_usd :: world where
  "world_usd = world0\<lparr>rows := [''USD'' \<mapsto> usd_item], next_id := 2\<rparr>"

definition data_same_rate :: rate_data where
  "data_same_rate = \<lparr>d_rate = Some (Fin 90), d_amount = Some 10, d_platform = Some ''other''\<rparr>"

definition data_new_rate :: rate_data where
  "data_new_rate =
     \<lparr>d_rate = Some (Fin (183 / 2)), d_amount = Some 1, d_platform = Some ''CBR''\<rparr>"

text \<open>
  The table holds \<open>USD\<close> at the rate \<open>1e-9\<close>, and the incoming record brings the rate
  \<open>3 * 2 ^ -85\<close>, about \<open>7.75e-26\<close>; both are doubles.
\<close>

definition tiny_item :: ItemModel where
  "tiny_item = usd_item\<lparr>rate := Fin (4835703278458517 / 2 ^ 82)\<rparr>"

definition world_tiny :: world where
  "world_tiny = world0\<lparr>rows := [''USD'' \<mapsto> tiny_item], next_id := 2\<rparr>"

definition data_tiny :: rate_data where
  "data_tiny = \<lparr>d_rate = Some (Fin (3 / 2 ^ 85)), d_amount = Some 1, d_platform = Some ''CBR''\<rparr>"

text \<open>
  A received event for \<open>USD\<close> that repeats the stored rate 90 with another amount and
  platform and with the crypto flag set, and a process that holds \<open>USD\<close> and has one
  subscriber.
\<close>

definition wire_same_rate :: wire_item where
  "wire_same_rate =
     \<lparr>w_currency = Some ''USD'', w_rate = Some (Fin 90), w_amount = Some 10,
      w_platform = Some ''other'', w_crypto_currency = Some True\<rparr>"

definition event_same_rate :: event where
  "event_same_rate = \<lparr>ev_type = Some ''updated'', ev_item = Some wire_same_rate\<rparr>"

definition world_usd_watched :: world where
  "world_usd_watched = connect 1 world_usd"

text \<open>A received event for \<open>USD\<close> that brings the rate 91.5.\<close>

definition wire_new_rate :: wire_item where
  "wire_new_rate =
     \<lparr>w_currency = Some ''USD'', w_rate = Some (Fin (183 / 2)), w_amount = Some 1,
      w_platform = Some ''CBR'', w_crypto_currency = Some False\<rparr>"

text \<open>Surroundings in which the NATS client's \<open>publish\<close> raises.\<close>

definition env_publish_fails :: env where
  "env_publish_fails = env_ok\<lparr>nats_publish_ok := False\<rparr>"

text \<open>
  The code \<open>BTC\<close> comes from both sources: from the fixed-income feed at rate 100 and from
  the crypto feed at rate 200.
\<close>

definition cbr_with_btc :: rates where
  "cbr_with_btc =
     [(''RUB'', \<lparr>d_rate = Some (Fin 1), d_amount = Some 1, d_platform = Some ''CBR''\<rparr>),
      (''BTC'', \<lparr>d_rate = Some (Fin 100), d_amount = Some 1, d_platform = Some ''CBR''\<rparr>)]"

definition crypto_with_btc :: rates where
  "crypto_with_btc =
     [(''BTC'', \<lparr>d_rate = Some (Fin 200), d_amount = Some 1, d_platform = Some ''Binance''\<rparr>)]"

text \<open>
  \<open>float\<close> and \<open>int\<close> on the strings of the documents below, a date, and three documents
  with one \<open>Valute\<close> entry for \<open>USD\<close>: the first has only a \<open>Value\<close> node, the second has
  both a \<open>Value\<close> and a \<open>VunitRate\<close> node, the third has an \<open>amount\<close> node that reads 0.
\<close>

definition lib0 :: pylib where
  "lib0 =
     \<lparr>py_float = (\<lambda>s. if s = ''90.5'' then Some (Fin (181 / 2))
                       else if s = ''905'' then Some (Fin 905) else None),
      py_int = (\<lambda>s. if s = ''0'' then Some 0 else if s = ''10'' then Some 10 else None)\<rparr>"

definition date0 :: date where
  "date0 = \<lparr>year = 2026, month = 11, day = 4\<rparr>"

definition doc_value_only :: element where
  "doc_value_only =
     Element ''ValCurs'' None
       [Element ''Valute'' None
          [Element ''CharCode'' (Some ''USD'') [], Element ''Value'' (Some ''90,5'') []]]"

definition doc_both_nodes :: element where
  "doc_both_nodes =
     Element ''ValCurs'' None
       [Element ''Valute'' None
          [Element ''CharCode'' (Some ''USD'') [], Element ''Value'' (Some ''905'') [],
           Element ''VunitRate'' (Some ''90,5'') []]]"

definition doc_zero_amount :: element where
  "doc_zero_amount =
     Element ''ValCurs'' None
       [Element ''Valute'' None
          [Element ''CharCode'' (Some ''USD'') [], Element ''VunitRate'' (Some ''90,5'') [],
           Element ''amount'' (Some ''0'') []]]"

text \<open>Surroundings in which the fixed-income endpoint answers with the second document.\<close>

definition env_cbr_answers :: env where
  "env_cbr_answers = env_ok\<lparr>cbr_reply := (\<lambda>d. HttpOk (Some doc_both_nodes))\<rparr>"

section \<open>Properties of the float operations\<close>

lemma round_even_ge: "of_int N \<le> z \<Longrightarrow> N \<le> round_even z"
proof -
  assume "of_int N \<le> z"
  then have "N \<le> \<lfloor>z\<rfloor>" by (simp add: le_floor_iff)
  then show ?thesis by (simp add: round_even_def Let_def)
qed

lemma round_even_le: "z \<le> of_int N \<Longrightarrow> round_even z \<le> N"
proof (cases "z = of_int N")
  case True
  then show ?thesis by (simp add: round_even_def Let_def)
next
  case False
  assume "z \<le> of_int N"
  with False have "z < of_int N" by simp
  then have "\<lfloor>z\<rfloor> < N" by (simp add: floor_less_iff)
  then show ?thesis by (simp add: round_even_def Let_def)
qed

lemma round_even_less_odd:
  assumes "odd M"
  shows "round_even z < M \<longleftrightarrow> z \<le> of_int M - 1 / 2"
proof
  assume le: "z \<le> of_int M - 1 / 2"
  then have "z < of_int M" by simp
  then have fl: "\<lfloor>z\<rfloor> \<le> M - 1" by (simp add: floor_less_iff)
  show "round_even z < M"
  proof (cases "\<lfloor>z\<rfloor> = M - 1")
    case True
    then have ev: "even \<lfloor>z\<rfloor>" using assms by simp
    from le True have "z - of_int \<lfloor>z\<rfloor> \<le> 1 / 2" by simp
    then show ?thesis using True ev by (auto simp: round_even_def Let_def)
  next
    case False
    with fl have "\<lfloor>z\<rfloor> \<le> M - 2" by simp
    then show ?thesis by (simp add: round_even_def Let_def)
  qed
next
  assume lt: "round_even z < M"
  show "z \<le> of_int M - 1 / 2"
  proof (rule ccontr)
    assume "\<not> z \<le> of_int M - 1 / 2"
    then have gt: "of_int M - 1 / 2 < z" by simp
    then have "of_int (M - 1) \<le> z" by simp
    then have fl: "M - 1 \<le> \<lfloor>z\<rfloor>" by (simp only: le_floor_iff)
    show False
    proof (cases "\<lfloor>z\<rfloor> = M - 1")
      case True
      with gt have "1 / 2 < z - of_int \<lfloor>z\<rfloor>" by simp
      then have "round_even z = \<lfloor>z\<rfloor> + 1" by (simp add: round_even_def Let_def)
      with True lt show False by simp
    next
      case False
      with fl have "M \<le> \<lfloor>z\<rfloor>" by simp
      moreover have "\<lfloor>z\<rfloor> \<le> round_even z" by (simp add: round_even_def Let_def)
      ultimately show False using lt by simp
    qed
  qed
qed

lemma round_even_minus: "round_even (- z) = - round_even z"
proof (cases "z = of_int \<lfloor>z\<rfloor>")
  case True
  then obtain n :: int where z: "z = of_int n" ..
  have "- z = of_int (- n)" by (simp add: z)
  then have "round_even (- z) = - n" by (simp only: round_even_def Let_def floor_of_int) simp
  moreover have "round_even z = n" by (simp add: z round_even_def Let_def)
  ultimately show ?thesis by simp
next
  case False
  define f where "f = \<lfloor>z\<rfloor>"
  define d where "d = z - of_int f"
  have "\<lceil>z\<rceil> = f + 1" using False by (simp add: ceiling_altdef f_def)
  then have fl: "\<lfloor>- z\<rfloor> = - f - 1" by (simp add: ceiling_def)
  have d0: "0 < d" using False by (simp add: d_def f_def less_le)
  have frac: "- z - of_int (- f - 1) = 1 - d" by (simp add: d_def)
  have ev: "even (- f - 1) \<longleftrightarrow> odd f" by simp
  have pos: "round_even z =
      (if d < 1 / 2 then f else if 1 / 2 < d then f + 1 else if even f then f else f + 1)"
    by (simp add: round_even_def Let_def f_def d_def)
  have neg: "round_even (- z) =
      (if 1 - d < 1 / 2 then - f - 1 else if 1 / 2 < 1 - d then - f
       else if odd f then - f - 1 else - f)"
    by (simp only: round_even_def Let_def fl frac ev) simp
  consider "d < 1 / 2" | "1 / 2 < d" | "d = 1 / 2" by linarith
  then show ?thesis
  proof cases
    case 1
    then show ?thesis by (simp add: pos neg)
  next
    case 2
    then show ?thesis by (simp add: pos neg)
  next
    case 3
    then show ?thesis by (simp add: pos neg)
  qed
qed

lemma pow2_int:
  "2 powr of_int i = (if 0 \<le> i then 2 ^ nat i else 1 / 2 ^ nat (- i) :: real)"
  by (simp add: powr_int)

lemma round_even_abs:
  assumes "0 < p"
  shows "\<bar>of_int (round_even (x / p)) * p\<bar> = of_int (round_even (\<bar>x\<bar> / p)) * p"
proof -
  have nn: "0 \<le> round_even (\<bar>x\<bar> / p)"
    using assms by (intro round_even_ge) simp
  show ?thesis
  proof (cases "0 \<le> x")
    case True
    with nn assms show ?thesis by (simp add: abs_mult)
  next
    case False
    then have "x / p = - (\<bar>x\<bar> / p)" by simp
    then have "round_even (x / p) = - round_even (\<bar>x\<bar> / p)"
      by (simp only: round_even_minus)
    with nn assms show ?thesis by (simp add: abs_mult)
  qed
qed

lemma rounded_below:
  assumes "x \<noteq> 0" and "E < 2 ^ 1024"
  shows "fl_lt (fl_abs (round_double x)) (Fin E) \<longleftrightarrow>
         of_int (round_even (\<bar>x\<bar> / 2 powr of_int (max (\<lfloor>log 2 \<bar>x\<bar>\<rfloor> - 52) (- 1074)))) *
           2 powr of_int (max (\<lfloor>log 2 \<bar>x\<bar>\<rfloor> - 52) (- 1074)) < E"
proof -
  define e where "e = max (\<lfloor>log 2 \<bar>x\<bar>\<rfloor> - 52) (- 1074)"
  define y :: real where "y = of_int (round_even (x / 2 powr of_int e)) * 2 powr of_int e"
  have p: "0 < (2::real) powr of_int e" by simp
  have ay: "\<bar>y\<bar> = of_int (round_even (\<bar>x\<bar> / 2 powr of_int e)) * 2 powr of_int e"
    unfolding y_def by (rule round_even_abs [OF p])
  have rd: "round_double x = (if 2 ^ 1024 \<le> \<bar>y\<bar> then (if 0 < x then PInf else NInf) else Fin y)"
    using assms(1) by (simp add: round_double_def Let_def e_def y_def)
  have "fl_lt (fl_abs (round_double x)) (Fin E) \<longleftrightarrow> \<bar>y\<bar> < E"
    using assms(2) by (auto simp: rd)
  then show ?thesis by (simp only: ay e_def)
qed

lemma pow2_consts:
  "(2::real) powr of_int (- 29) = 1 / 2 ^ 29"
  "(2::real) powr of_int (- 30) = 1 / 2 ^ 30"
  "(2::real) powr of_int (- 82) = 1 / 2 ^ 82"
  using powr_int [of "2::real" "- 29"] powr_int [of "2::real" "- 30"]
    powr_int [of "2::real" "- 82"]
  by simp_all

lemma pow2_split: "(2::real) powr of_int (a + b) = 2 powr of_int a * 2 powr of_int b"
  by (simp add: powr_add)

lemma threshold_pos:
  assumes "0 < d"
  shows "of_int (round_even (d / 2 powr of_int (max (\<lfloor>log 2 d\<rfloor> - 52) (- 1074)))) *
           (2::real) powr of_int (max (\<lfloor>log 2 d\<rfloor> - 52) (- 1074)) < 4835703278458517 / 2 ^ 82
         \<longleftrightarrow> d \<le> 9671406556917033 / 2 ^ 83"
proof -
  define k where "k = \<lfloor>log 2 d\<rfloor>"
  define e where "e = max (k - 52) (- 1074)"
  define p :: real where "p = 2 powr of_int e"
  define n where "n = round_even (d / p)"
  have p0: "0 < p" by (simp add: p_def)
  have "2 powr of_int k \<le> d \<and> d < 2 powr (of_int k + 1)"
    using floor_log_eq_powr_iff [of d 2 k] assms by (simp add: k_def)
  then have lo: "2 powr of_int k \<le> d" and hi: "d < 2 powr of_int (k + 1)"
    by simp_all
  consider "- 29 \<le> k" | "k = - 30" | "k \<le> - 31" by linarith
  then have "of_int n * p < 4835703278458517 / 2 ^ 82 \<longleftrightarrow> d \<le> 9671406556917033 / 2 ^ 83"
  proof cases
    case 1
    then have e: "e = k - 52" by (simp add: e_def)
    have kp: "2 powr of_int k = 2 ^ 52 * p"
      using pow2_split [of 52 "k - 52"] by (simp add: p_def e pow2_int)
    have big: "(1 / 2 ^ 29 :: real) \<le> 2 powr of_int k"
    proof -
      have c: "(2::real) powr of_int (- 29) = 1 / 2 ^ 29" by (rule pow2_consts)
      have "(2::real) powr of_int (- 29) \<le> 2 powr of_int k"
        using 1 by (intro powr_mono) simp_all
      then show ?thesis unfolding c .
    qed
    from lo kp p0 have "of_int (2 ^ 52) \<le> d / p"
      by (simp add: pos_le_divide_eq)
    then have "2 ^ 52 \<le> n" unfolding n_def by (rule round_even_ge)
    then have "(2 ^ 52 :: real) \<le> of_int n"
      by (metis of_int_le_iff of_int_numeral of_int_power)
    then have "2 ^ 52 * p \<le> of_int n * p"
      using p0 by (simp add: mult_right_mono)
    with kp big have l: "1 / 2 ^ 29 \<le> of_int n * p" by linarith
    from lo big have r: "1 / 2 ^ 29 \<le> d" by linarith
    have "\<not> of_int n * p < 4835703278458517 / 2 ^ 82" using l by simp
    moreover have "\<not> d \<le> 9671406556917033 / 2 ^ 83" using r by simp
    ultimately show ?thesis by simp
  next
    case 2
    then have e: "e = - 82" by (simp add: e_def)
    have p: "p = 1 / 2 ^ 82" unfolding p_def e by (rule pow2_consts)
    have "of_int n * p < 4835703278458517 / 2 ^ 82 \<longleftrightarrow> n < 4835703278458517"
      by (simp add: p divide_less_cancel)
    also have "\<dots> \<longleftrightarrow> d / p \<le> of_int 4835703278458517 - 1 / 2"
      unfolding n_def by (rule round_even_less_odd) simp
    also have "\<dots> \<longleftrightarrow> d \<le> 9671406556917033 / 2 ^ 83"
      by (simp add: p mult.commute)
    finally show ?thesis .
  next
    case 3
    then have e_hi: "e \<le> - 83" and e_lo: "- 1074 \<le> e" by (simp_all add: e_def)
    define j where "j = - 30 - e"
    have j0: "0 \<le> j" using e_hi by (simp add: j_def)
    have jp: "(2::real) powr of_int (- 30) = 2 powr of_int j * p"
      using pow2_split [of j e] by (simp add: p_def j_def)
    have jn: "(2::real) powr of_int j = of_int (2 ^ nat j)"
      using j0 by (simp add: pow2_int)
    have small: "(2::real) powr of_int (- 30) = 1 / 2 ^ 30" by (rule pow2_consts)
    have "(2::real) powr of_int (k + 1) \<le> 2 powr of_int (- 30)"
      using 3 by (intro powr_mono) simp_all
    with hi have d30: "d < 2 powr of_int (- 30)" by linarith
    with jp p0 have "d / p < 2 powr of_int j"
      by (simp add: pos_divide_less_eq)
    then have "d / p \<le> of_int (2 ^ nat j)" by (simp add: jn)
    then have "n \<le> 2 ^ nat j" unfolding n_def by (rule round_even_le)
    then have "of_int n \<le> (of_int (2 ^ nat j) :: real)" by (simp only: of_int_le_iff)
    then have "of_int n * p \<le> 2 powr of_int j * p"
      using p0 by (simp add: jn mult_right_mono)
    then have "of_int n * p \<le> 2 powr of_int (- 30)" by (simp only: jp)
    then have l: "of_int n * p \<le> 1 / 2 ^ 30" by (simp only: small)
    from d30 have r: "d < 1 / 2 ^ 30" by (simp only: small)
    have "of_int n * p < 4835703278458517 / 2 ^ 82" using l by simp
    moreover have "d \<le> 9671406556917033 / 2 ^ 83" using r by simp
    ultimately show ?thesis by simp
  qed
  then show ?thesis by (simp only: n_def p_def e_def k_def)
qed

lemma close_finite:
  "fl_lt (fl_abs (fl_sub (Fin a) (Fin b))) eps \<longleftrightarrow> \<bar>a - b\<bar> \<le> 9671406556917033 / 2 ^ 83"
proof (cases "a - b = 0")
  case True
  then show ?thesis by (simp add: round_double_def eps_def)
next
  case False
  then have pos: "0 < \<bar>a - b\<bar>" by simp
  have small: "(4835703278458517 / 2 ^ 82 :: real) < 2 ^ 1024" by simp
  show ?thesis
    unfolding fl_sub.simps eps_def rounded_below [OF False small]
    by (rule threshold_pos [OF pos])
qed

lemma close_special:
  "\<not> fl_lt (fl_abs (fl_sub NaN b)) eps"
  "\<not> fl_lt (fl_abs (fl_sub a NaN)) eps"
  "\<not> fl_lt (fl_abs (fl_sub PInf b)) eps"
  "\<not> fl_lt (fl_abs (fl_sub NInf b)) eps"
  "\<not> fl_lt (fl_abs (fl_sub a PInf)) eps"
  "\<not> fl_lt (fl_abs (fl_sub a NInf)) eps"
  by (cases a; cases b; simp add: eps_def)+

lemma close_rounded:
  "fl_lt (fl_abs (round_double x)) eps \<longleftrightarrow> \<bar>x\<bar> \<le> 9671406556917033 / 2 ^ 83"
  using close_finite [of x 0] by simp

lemma gap_not_close:
  "1 / 10 ^ 9 \<le> \<bar>a - b\<bar> \<Longrightarrow> \<not> fl_lt (fl_abs (fl_sub (Fin a) (Fin b))) eps"
  by (simp add: close_rounded)

lemma close_needs_finite:
  "fl_lt (fl_abs (fl_sub x y)) eps \<Longrightarrow> \<exists>a b. x = Fin a \<and> y = Fin b"
  by (cases x; cases y; simp add: eps_def)

lemma round_even_of_int: "round_even (of_int m) = m"
  by (simp add: round_even_def Let_def)

lemma round_double_exact:
  assumes "0 < x"
    and "2 powr of_int k \<le> x" and "x < 2 powr of_int (k + 1)"
    and "- 1022 \<le> k" and "k \<le> 1023"
    and "x = of_int m * 2 powr of_int (k - 52)"
  shows "round_double x = Fin x"
proof -
  have fl: "\<lfloor>log 2 \<bar>x\<bar>\<rfloor> = k"
    using assms(1-3) floor_log_eq_powr_iff [of x 2 k] by simp
  have e: "max (k - 52) (- 1074) = k - 52" using assms(4) by simp
  have p: "0 < (2::real) powr of_int (k - 52)" by simp
  have q: "x / 2 powr of_int (k - 52) = of_int m"
    using p by (subst assms(6)) simp
  have "(2::real) powr of_int (k + 1) \<le> 2 powr of_int 1024"
    using assms(5) by (intro powr_mono) simp_all
  also have "(2::real) powr of_int 1024 = 2 ^ 1024"
    using powr_int [of "2::real" 1024] by simp
  finally have "x < 2 ^ 1024" using assms(3) by linarith
  then have small: "\<not> 2 ^ 1024 \<le> \<bar>x\<bar>" using assms(1) by simp
  have y: "of_int (round_even (x / 2 powr of_int (k - 52))) * 2 powr of_int (k - 52) = x"
    by (simp only: q round_even_of_int assms(6) [symmetric])
  show ?thesis
    using assms(1) small
    by (simp only: round_double_def Let_def fl e y) simp
qed

lemma round_double_one: "round_double 1 = Fin 1"
proof (rule round_double_exact [where k = 0 and m = "2 ^ 52"])
  show "(1::real) = of_int (2 ^ 52) * 2 powr of_int (0 - 52)"
    using powr_int [of "2::real" "- 52"] by simp
qed simp_all

lemma round_double_90_5: "round_double (181 / 2) = Fin (181 / 2)"
proof (rule round_double_exact [where k = 6 and m = "181 * 2 ^ 45"])
  show "(181 / 2 ::real) = of_int (181 * 2 ^ 45) * 2 powr of_int (6 - 52)"
    using powr_int [of "2::real" "- 46"] by simp
  show "2 powr of_int 6 \<le> (181 / 2 :: real)"
    using powr_int [of "2::real" 6] by simp
  show "(181 / 2 :: real) < 2 powr of_int (6 + 1)"
    using powr_int [of "2::real" 7] by simp
qed simp_all

section \<open>Properties of the connection manager\<close>

lemma print_line_fields [simp]:
  "rows (print_line l w) = rows w"
  "next_id (print_line l w) = next_id w"
  "commits (print_line l w) = commits w"
  "active (print_line l w) = active w"
  "has_clients (print_line l w) = has_clients w"
  "encoded (print_line l w) = encoded w"
  "ws_calls (print_line l w) = ws_calls w"
  "nats_client (print_line l w) = nats_client w"
  "nats_out (print_line l w) = nats_out w"
  "emitted (print_line l w) = emitted w"
  "log_lines (print_line l w) = log_lines w @ [l]"
  "rates_cache (print_line l w) = rates_cache w"
  "http_calls (print_line l w) = http_calls w"
  by (simp_all add: print_line_def)

lemma disconnect_fields [simp]:
  "rows (disconnect s w) = rows w"
  "next_id (disconnect s w) = next_id w"
  "commits (disconnect s w) = commits w"
  "active (disconnect s w) = removeAll s (active w)"
  "encoded (disconnect s w) = encoded w"
  "ws_calls (disconnect s w) = ws_calls w"
  "nats_client (disconnect s w) = nats_client w"
  "nats_out (disconnect s w) = nats_out w"
  "emitted (disconnect s w) = emitted w"
  "rates_cache (disconnect s w) = rates_cache w"
  "http_calls (disconnect s w) = http_calls w"
  by (simp_all add: disconnect_def Let_def)

lemma send_all_ws_calls:
  "ws_calls (fst (send_all e d xs w bad)) = ws_calls w @ map (\<lambda>s. (s, d, send_ok e s)) xs"
  by (induction xs arbitrary: w bad) simp_all

lemma send_all_bad:
  "snd (send_all e d xs w bad) = bad @ filter (\<lambda>s. \<not> send_ok e s) xs"
  by (induction xs arbitrary: w bad) simp_all

lemma send_all_fields:
  "rows (fst (send_all e d xs w bad)) = rows w"
  "next_id (fst (send_all e d xs w bad)) = next_id w"
  "commits (fst (send_all e d xs w bad)) = commits w"
  "active (fst (send_all e d xs w bad)) = active w"
  "has_clients (fst (send_all e d xs w bad)) = has_clients w"
  "encoded (fst (send_all e d xs w bad)) = encoded w"
  "nats_client (fst (send_all e d xs w bad)) = nats_client w"
  "nats_out (fst (send_all e d xs w bad)) = nats_out w"
  "emitted (fst (send_all e d xs w bad)) = emitted w"
  "rates_cache (fst (send_all e d xs w bad)) = rates_cache w"
  "http_calls (fst (send_all e d xs w bad)) = http_calls w"
  "log_lines (fst (send_all e d xs w bad)) = log_lines w"
  by (induction xs arbitrary: w bad, simp_all)+

lemma drop_bad_active:
  "active (drop_bad bad w) = filter (\<lambda>s. s \<notin> set bad) (active w)"
proof (induction bad arbitrary: w)
  case Nil
  show ?case by simp
next
  case (Cons b bad)
  have "filter (\<lambda>s. s \<notin> set bad) (removeAll b xs) =
        filter (\<lambda>s. s \<notin> set (b # bad)) xs" for xs :: "nat list"
    by (induction xs) auto
  with Cons show ?case by simp
qed

lemma drop_bad_fields:
  "rows (drop_bad bad w) = rows w"
  "next_id (drop_bad bad w) = next_id w"
  "commits (drop_bad bad w) = commits w"
  "encoded (drop_bad bad w) = encoded w"
  "ws_calls (drop_bad bad w) = ws_calls w"
  "nats_client (drop_bad bad w) = nats_client w"
  "nats_out (drop_bad bad w) = nats_out w"
  "emitted (drop_bad bad w) = emitted w"
  "rates_cache (drop_bad bad w) = rates_cache w"
  "http_calls (drop_bad bad w) = http_calls w"
  by (induction bad arbitrary: w, simp_all)+

lemma broadcast_nonempty:
  "active w \<noteq> [] \<Longrightarrow>
   broadcast e ev w =
     drop_bad (snd (send_all e ev (active w) (w\<lparr>encoded := encoded w @ [ev]\<rparr>) []))
              (fst (send_all e ev (active w) (w\<lparr>encoded := encoded w @ [ev]\<rparr>) []))"
  by (simp add: broadcast_def Let_def split_beta)

lemma filter_not_mem_bad:
  "filter (\<lambda>s. s \<notin> set (filter (\<lambda>s. \<not> P s) xs)) xs = filter P xs"
  by (induction xs) (auto intro: filter_cong)

lemma broadcast_active: "active (broadcast e ev w) = filter (send_ok e) (active w)"
proof (cases "active w = []")
  case True
  then show ?thesis by (simp add: broadcast_def)
next
  case False
  let ?w1 = "w\<lparr>encoded := encoded w @ [ev]\<rparr>"
  have bad: "snd (send_all e ev (active w) ?w1 []) = filter (\<lambda>s. \<not> send_ok e s) (active w)"
    by (simp add: send_all_bad)
  have act: "active (fst (send_all e ev (active w) ?w1 [])) = active w"
    by (simp add: send_all_fields)
  have "active (broadcast e ev w) =
        filter (\<lambda>s. s \<notin> set (filter (\<lambda>s. \<not> send_ok e s) (active w))) (active w)"
    unfolding broadcast_nonempty [OF False] drop_bad_active bad act ..
  then show ?thesis
    by (simp only: filter_not_mem_bad)
qed

lemma broadcast_ws_calls:
  "ws_calls (broadcast e ev w) = ws_calls w @ map (\<lambda>s. (s, ev, send_ok e s)) (active w)"
proof (cases "active w = []")
  case True
  then show ?thesis by (simp add: broadcast_def)
next
  case False
  then show ?thesis
    by (simp add: broadcast_nonempty drop_bad_fields send_all_ws_calls)
qed

lemma broadcast_encoded:
  "active w \<noteq> [] \<Longrightarrow> encoded (broadcast e ev w) = encoded w @ [ev]"
  by (simp add: broadcast_nonempty drop_bad_fields send_all_fields)

text \<open>
  Claim C5. \<open>broadcast\<close> returns at once, with nothing encoded, when no subscriber is
  registered. Otherwise it encodes the event once, calls \<open>send_json\<close> once for every
  subscriber registered at the call, whether or not an earlier send failed; the sending loop
  leaves the set of subscribers as it is; after the call the set holds exactly the
  subscribers whose send succeeded, and the next broadcast goes to exactly those.
\<close>

theorem broadcast_fan_out:
  "(active w = [] \<longrightarrow> broadcast e ev w = w) \<and>
   (active w \<noteq> [] \<longrightarrow>
      encoded (broadcast e ev w) = encoded w @ [ev] \<and>
      ws_calls (broadcast e ev w) = ws_calls w @ map (\<lambda>s. (s, ev, send_ok e s)) (active w) \<and>
      active (fst (send_all e ev (active w) (w\<lparr>encoded := encoded w @ [ev]\<rparr>) [])) = active w \<and>
      active (broadcast e ev w) = filter (send_ok e) (active w) \<and>
      ws_calls (broadcast e' ev' (broadcast e ev w)) =
        ws_calls (broadcast e ev w) @
        map (\<lambda>s. (s, ev', send_ok e' s)) (filter (send_ok e) (active w)))"
proof (intro conjI impI)
  assume "active w = []"
  then show "broadcast e ev w = w"
    by (simp add: broadcast_def)
next
  assume "active w \<noteq> []"
  then show "encoded (broadcast e ev w) = encoded w @ [ev]"
    by (rule broadcast_encoded)
next
  show "ws_calls (broadcast e ev w) = ws_calls w @ map (\<lambda>s. (s, ev, send_ok e s)) (active w)"
    by (rule broadcast_ws_calls)
next
  show "active (fst (send_all e ev (active w) (w\<lparr>encoded := encoded w @ [ev]\<rparr>) [])) = active w"
    by (simp add: send_all_fields)
next
  show "active (broadcast e ev w) = filter (send_ok e) (active w)"
    by (rule broadcast_active)
next
  show "ws_calls (broadcast e' ev' (broadcast e ev w)) =
        ws_calls (broadcast e ev w) @
        map (\<lambda>s. (s, ev', send_ok e' s)) (filter (send_ok e) (active w))"
    by (simp only: broadcast_ws_calls [of e' ev'] broadcast_active)
qed

theorem broadcast_fan_out_witness:
  "active world0 = [] \<and> broadcast env_second_fails (payload_of ''created'' usd_item) world0 = world0 \<and>
   active two_subscribers \<noteq> [] \<and>
   encoded (broadcast env_second_fails (payload_of ''created'' usd_item) two_subscribers) =
     [payload_of ''created'' usd_item] \<and>
   ws_calls (broadcast env_second_fails (payload_of ''created'' usd_item) two_subscribers) =
     [(1, payload_of ''created'' usd_item, True), (2, payload_of ''created'' usd_item, False)] \<and>
   active (broadcast env_second_fails (payload_of ''created'' usd_item) two_subscribers) = [1] \<and>
   ws_calls (broadcast env_ok (payload_of ''updated'' usd_item)
              (broadcast env_second_fails (payload_of ''created'' usd_item) two_subscribers)) =
     [(1, payload_of ''created'' usd_item, True), (2, payload_of ''created'' usd_item, False),
      (1, payload_of ''updated'' usd_item, True)]"
  using broadcast_fan_out [of world0 env_second_fails "payload_of ''created'' usd_item"]
    broadcast_fan_out [of two_subscribers env_second_fails "payload_of ''created'' usd_item"
      env_ok "payload_of ''updated'' usd_item"]
  by (simp add: world0_def two_subscribers_def connect_def env_second_fails_def env_ok_def)

lemma broadcast_fields:
  "rows (broadcast e ev w) = rows w"
  "next_id (broadcast e ev w) = next_id w"
  "commits (broadcast e ev w) = commits w"
  "nats_client (broadcast e ev w) = nats_client w"
  "nats_out (broadcast e ev w) = nats_out w"
  "emitted (broadcast e ev w) = emitted w"
  "rates_cache (broadcast e ev w) = rates_cache w"
  "http_calls (broadcast e ev w) = http_calls w"
  by (cases "active w = []",
      simp add: broadcast_def,
      simp add: broadcast_nonempty drop_bad_fields send_all_fields)+

lemma publish_fields:
  "rows (snd (publish e subj ev w)) = rows w"
  "next_id (snd (publish e subj ev w)) = next_id w"
  "commits (snd (publish e subj ev w)) = commits w"
  "active (snd (publish e subj ev w)) = active w"
  "has_clients (snd (publish e subj ev w)) = has_clients w"
  "encoded (snd (publish e subj ev w)) = encoded w"
  "ws_calls (snd (publish e subj ev w)) = ws_calls w"
  "emitted (snd (publish e subj ev w)) = emitted w"
  "rates_cache (snd (publish e subj ev w)) = rates_cache w"
  "http_calls (snd (publish e subj ev w)) = http_calls w"
  by (simp_all add: publish_def nats_connect_def Let_def)

lemma emit_event_eq:
  "emit_event e t item w =
     (let w1 = broadcast e (payload_of t item) (w\<lparr>emitted := emitted w @ [payload_of t item]\<rparr>);
          r = publish e ''items.updates'' (payload_of t item) w1
      in if fst r = None then snd r else print_line NatsPublishFailedLog (snd r))"
  by (simp add: emit_event_def Let_def split: prod.splits option.splits)

lemma emit_event_fields:
  "rows (emit_event e t item w) = rows w"
  "next_id (emit_event e t item w) = next_id w"
  "commits (emit_event e t item w) = commits w"
  "emitted (emit_event e t item w) = emitted w @ [payload_of t item]"
  "rates_cache (emit_event e t item w) = rates_cache w"
  "http_calls (emit_event e t item w) = http_calls w"
  by (simp_all add: emit_event_eq Let_def publish_fields broadcast_fields)

lemma broadcast_event_fields:
  "rows (broadcast_event e t item w) = rows w"
  "next_id (broadcast_event e t item w) = next_id w"
  "commits (broadcast_event e t item w) = commits w"
  "emitted (broadcast_event e t item w) = emitted w @ [payload_of t item]"
  "nats_client (broadcast_event e t item w) = nats_client w"
  "nats_out (broadcast_event e t item w) = nats_out w"
  "rates_cache (broadcast_event e t item w) = rates_cache w"
  "http_calls (broadcast_event e t item w) = http_calls w"
  by (simp_all add: broadcast_event_def Let_def broadcast_fields)

section \<open>The change threshold of the upsert\<close>

text \<open>
  Claim C1 does not hold as stated. \<open>USD\<close> is stored at the rate \<open>1e-9\<close> and the incoming
  rate is \<open>3 * 2 ^ -85\<close>. The two rates differ by less than \<open>10 ^ -9\<close>, but their difference
  rounds to the double \<open>1e-9\<close>, which is not below \<open>1e-9\<close>: both upserts commit and emit an
  \<open>updated\<close> event.
\<close>

theorem threshold_is_on_rounded_difference:
  "rows world_tiny ''USD'' = Some tiny_item \<and>
   rate tiny_item = Fin (4835703278458517 / 2 ^ 82) \<and>
   d_rate data_tiny = Some (Fin (3 / 2 ^ 85)) \<and>
   \<bar>4835703278458517 / 2 ^ 82 - 3 / 2 ^ 85\<bar> < (1 / 10 ^ 9 :: real) \<and>
   commits world_tiny = 0 \<and> emitted world_tiny = [] \<and>
   commits (snd (upsert_item config0 env_ok 7 ''USD'' data_tiny world_tiny)) = 1 \<and>
   emitted (snd (upsert_item config0 env_ok 7 ''USD'' data_tiny world_tiny)) =
     [payload_of ''updated'' (tiny_item\<lparr>rate := Fin (3 / 2 ^ 85), last_updated_time := 7\<rparr>)] \<and>
   commits (snd (parser_upsert_item config0 env_ok 7 ''USD'' data_tiny world_tiny)) = 1 \<and>
   emitted (snd (parser_upsert_item config0 env_ok 7 ''USD'' data_tiny world_tiny)) =
     [payload_of ''updated'' (tiny_item\<lparr>rate := Fin (3 / 2 ^ 85), last_updated_time := 7\<rparr>)]"
  by (simp add: world_tiny_def tiny_item_def usd_item_def data_tiny_def world0_def config0_def
      upsert_item_def parser_upsert_item_def close_rounded Let_def get_or_def emit_event_fields
      broadcast_event_fields)

text \<open>
  Claim C1, amended. When an item for the code exists with rate \<open>r\<close> and the incoming record
  has rate \<open>r'\<close>, both upserts (poller and older loop) are decided by the float test
  \<open>abs(r - r') < 1e-9\<close>. When it holds they do nothing at all: the state is returned as it
  is, whatever amount and platform the record carries. When it fails they commit once,
  store the updated item and emit exactly one \<open>updated\<close> event carrying it. For finite rates
  the test holds exactly when \<open>|r - r'|\<close> is at most \<open>9671406556917033 / 2 ^ 83\<close>, half a
  unit in the last place below the double \<open>1e-9\<close>, so it fails whenever
  \<open>|r - r'| \<ge> 10 ^ -9\<close>; it also fails whenever one of the rates is infinite or NaN.
\<close>

theorem upsert_double_threshold:
  assumes "rows w cur = Some item" and "d_rate data = Some r'"
  shows
    "(fl_lt (fl_abs (fl_sub (rate item) r')) eps \<longrightarrow>
        upsert_item cfg e now cur data w = (None, w) \<and>
        parser_upsert_item cfg e now cur data w = (None, w)) \<and>
     (\<not> fl_lt (fl_abs (fl_sub (rate item) r')) eps \<longrightarrow>
        fst (upsert_item cfg e now cur data w) = None \<and>
        commits (snd (upsert_item cfg e now cur data w)) = commits w + 1 \<and>
        rows (snd (upsert_item cfg e now cur data w)) =
          (rows w)(cur \<mapsto> updated_item cfg now cur data r' item) \<and>
        emitted (snd (upsert_item cfg e now cur data w)) =
          emitted w @ [payload_of ''updated'' (updated_item cfg now cur data r' item)] \<and>
        fst (parser_upsert_item cfg e now cur data w) = None \<and>
        commits (snd (parser_upsert_item cfg e now cur data w)) = commits w + 1 \<and>
        rows (snd (parser_upsert_item cfg e now cur data w)) =
          (rows w)(cur \<mapsto> updated_item cfg now cur data r' item) \<and>
        emitted (snd (parser_upsert_item cfg e now cur data w)) =
          emitted w @ [payload_of ''updated'' (updated_item cfg now cur data r' item)]) \<and>
     (\<forall>a b. rate item = Fin a \<and> r' = Fin b \<longrightarrow>
        (fl_lt (fl_abs (fl_sub (rate item) r')) eps \<longleftrightarrow>
           \<bar>a - b\<bar> \<le> 9671406556917033 / 2 ^ 83) \<and>
        (1 / 10 ^ 9 \<le> \<bar>a - b\<bar> \<longrightarrow> \<not> fl_lt (fl_abs (fl_sub (rate item) r')) eps)) \<and>
     (rate item \<in> {PInf, NInf, NaN} \<or> r' \<in> {PInf, NInf, NaN} \<longrightarrow>
        \<not> fl_lt (fl_abs (fl_sub (rate item) r')) eps)"
proof (intro conjI impI allI)
  assume "fl_lt (fl_abs (fl_sub (rate item) r')) eps"
  with assms show "upsert_item cfg e now cur data w = (None, w)"
    by (simp add: upsert_item_def Let_def)
  from assms \<open>fl_lt (fl_abs (fl_sub (rate item) r')) eps\<close>
  show "parser_upsert_item cfg e now cur data w = (None, w)"
    by (simp add: parser_upsert_item_def Let_def)
next
  assume far: "\<not> fl_lt (fl_abs (fl_sub (rate item) r')) eps"
  from assms far show "fst (upsert_item cfg e now cur data w) = None"
    by (simp add: upsert_item_def Let_def)
  from assms far show "commits (snd (upsert_item cfg e now cur data w)) = commits w + 1"
    by (simp add: upsert_item_def Let_def emit_event_fields)
  from assms far show "rows (snd (upsert_item cfg e now cur data w)) =
          (rows w)(cur \<mapsto> updated_item cfg now cur data r' item)"
    by (simp add: upsert_item_def Let_def emit_event_fields updated_item_def)
  from assms far show "emitted (snd (upsert_item cfg e now cur data w)) =
          emitted w @ [payload_of ''updated'' (updated_item cfg now cur data r' item)]"
    by (simp add: upsert_item_def Let_def emit_event_fields updated_item_def)
  from assms far show "fst (parser_upsert_item cfg e now cur data w) = None"
    by (simp add: parser_upsert_item_def Let_def)
  from assms far show "commits (snd (parser_upsert_item cfg e now cur data w)) = commits w + 1"
    by (simp add: parser_upsert_item_def Let_def broadcast_event_fields)
  from assms far show "rows (snd (parser_upsert_item cfg e now cur data w)) =
          (rows w)(cur \<mapsto> updated_item cfg now cur data r' item)"
    by (simp add: parser_upsert_item_def Let_def broadcast_event_fields updated_item_def)
  from assms far show "emitted (snd (parser_upsert_item cfg e now cur data w)) =
          emitted w @ [payload_of ''updated'' (updated_item cfg now cur data r' item)]"
    by (simp add: parser_upsert_item_def Let_def broadcast_event_fields updated_item_def)
next
  fix a b
  assume fin: "rate item = Fin a \<and> r' = Fin b"
  then show "fl_lt (fl_abs (fl_sub (rate item) r')) eps \<longleftrightarrow>
           \<bar>a - b\<bar> \<le> 9671406556917033 / 2 ^ 83"
    by (simp only: close_finite)
  assume "1 / 10 ^ 9 \<le> \<bar>a - b\<bar>"
  then have "\<not> fl_lt (fl_abs (fl_sub (Fin a) (Fin b))) eps"
    by (rule gap_not_close)
  with fin show "\<not> fl_lt (fl_abs (fl_sub (rate item) r')) eps"
    by simp
next
  assume "rate item \<in> {PInf, NInf, NaN} \<or> r' \<in> {PInf, NInf, NaN}"
  then show "\<not> fl_lt (fl_abs (fl_sub (rate item) r')) eps"
    using close_needs_finite [of "rate item" r'] by auto
qed

theorem upsert_double_threshold_witness:
  "rows world_usd ''USD'' = Some usd_item \<and>
   d_rate data_same_rate = Some (Fin 90) \<and> rate usd_item = Fin 90 \<and>
   fl_lt (fl_abs (fl_sub (rate usd_item) (Fin 90))) eps \<and>
   upsert_item config0 env_ok 7 ''USD'' data_same_rate world_usd = (None, world_usd) \<and>
   parser_upsert_item config0 env_ok 7 ''USD'' data_same_rate world_usd = (None, world_usd) \<and>
   d_rate data_new_rate = Some (Fin (183 / 2)) \<and>
   \<not> fl_lt (fl_abs (fl_sub (rate usd_item) (Fin (183 / 2)))) eps \<and>
   commits (snd (upsert_item config0 env_ok 7 ''USD'' data_new_rate world_usd)) = 1 \<and>
   emitted (snd (upsert_item config0 env_ok 7 ''USD'' data_new_rate world_usd)) =
     [payload_of ''updated'' (usd_item\<lparr>rate := Fin (183 / 2), last_updated_time := 7\<rparr>)] \<and>
   commits (snd (parser_upsert_item config0 env_ok 7 ''USD'' data_new_rate world_usd)) = 1 \<and>
   emitted (snd (parser_upsert_item config0 env_ok 7 ''USD'' data_new_rate world_usd)) =
     [payload_of ''updated'' (usd_item\<lparr>rate := Fin (183 / 2), last_updated_time := 7\<rparr>)] \<and>
   rate usd_item \<notin> {PInf, NInf, NaN}"
  using upsert_double_threshold [of world_usd "''USD''" usd_item data_same_rate "Fin 90" config0 env_ok 7]
    upsert_double_threshold [of world_usd "''USD''" usd_item data_new_rate "Fin (183 / 2)" config0 env_ok 7]
  by (simp add: world_usd_def world0_def usd_item_def data_same_rate_def data_new_rate_def
      updated_item_def get_or_def config0_def close_rounded)


section \<open>The replication handler\<close>

lemma nats_upsert_item_fields:
  "active (snd (nats_upsert_item now item w)) = active w"
  "has_clients (snd (nats_upsert_item now item w)) = has_clients w"
  "encoded (snd (nats_upsert_item now item w)) = encoded w"
  "ws_calls (snd (nats_upsert_item now item w)) = ws_calls w"
  "nats_client (snd (nats_upsert_item now item w)) = nats_client w"
  "nats_out (snd (nats_upsert_item now item w)) = nats_out w"
  "emitted (snd (nats_upsert_item now item w)) = emitted w"
  "rates_cache (snd (nats_upsert_item now item w)) = rates_cache w"
  "http_calls (snd (nats_upsert_item now item w)) = http_calls w"
  by (simp_all add: nats_upsert_item_def Let_def split: option.splits)

lemma nats_upsert_item_commits:
  "w_currency item = Some cur \<Longrightarrow>
   fst (nats_upsert_item now item w) = None \<and>
   commits (snd (nats_upsert_item now item w)) = commits w + 1"
  by (simp add: nats_upsert_item_def Let_def split: option.splits)

lemma on_message_eq:
  "on_message e now (Object data) w =
     (case ev_item data of
        None \<Rightarrow> (None, w)
      | Some item_data \<Rightarrow>
          (case w_currency item_data of
             None \<Rightarrow> (None, w)
           | Some cur \<Rightarrow>
               if cur = [] then (None, w)
               else (None, broadcast e data (snd (nats_upsert_item now item_data w)))))"
  by (simp add: on_message_def nats_upsert_item_def Let_def split: option.splits)

text \<open>
  Claim C4. Whatever message the subscriber's handler receives, it hands nothing to the
  NATS server and does not touch the publisher's client, and it builds no event of its own;
  for a message that carries an item with a non-empty code it commits the local upsert and
  passes the received event to \<open>broadcast\<close>, which sends it to the subscribers registered
  at that moment.
\<close>

theorem on_message_never_publishes:
  "nats_out (snd (on_message e now msg w)) = nats_out w \<and>
   nats_client (snd (on_message e now msg w)) = nats_client w \<and>
   emitted (snd (on_message e now msg w)) = emitted w \<and>
   (\<forall>data item cur.
      msg = Object data \<and> ev_item data = Some item \<and> w_currency item = Some cur \<and> cur \<noteq> [] \<longrightarrow>
      fst (on_message e now msg w) = None \<and>
      commits (snd (on_message e now msg w)) = commits w + 1 \<and>
      ws_calls (snd (on_message e now msg w)) =
        ws_calls w @ map (\<lambda>s. (s, data, send_ok e s)) (active w))"
proof (cases msg)
  case Undecodable
  then show ?thesis by (simp add: on_message_def)
next
  case NonObject
  then show ?thesis by (simp add: on_message_def)
next
  case (Object data)
  then show ?thesis
    by (simp add: on_message_eq broadcast_fields broadcast_ws_calls nats_upsert_item_fields
        nats_upsert_item_commits split: option.splits)
qed

theorem on_message_never_publishes_witness:
  "ev_item event_same_rate = Some wire_same_rate \<and> w_currency wire_same_rate = Some ''USD'' \<and>
   ''USD'' \<noteq> [] \<and>
   nats_out (snd (on_message env_ok 7 (Object event_same_rate) world_usd_watched)) = [] \<and>
   fst (on_message env_ok 7 (Object event_same_rate) world_usd_watched) = None \<and>
   commits (snd (on_message env_ok 7 (Object event_same_rate) world_usd_watched)) = 1 \<and>
   ws_calls (snd (on_message env_ok 7 (Object event_same_rate) world_usd_watched)) =
     [(1, event_same_rate, True)]"
  using on_message_never_publishes [of env_ok 7 "Object event_same_rate" world_usd_watched]
  by (simp add: event_same_rate_def wire_same_rate_def world_usd_watched_def world_usd_def
      world0_def connect_def env_ok_def)

section \<open>The replication upsert against the upsert of the cycle\<close>

lemma stamped_fields:
  assumes M: "M = model\<lparr>rate := r, amount := a, platform := p, crypto_currency := c\<rparr>"
  shows "rate (if M = model then model else M\<lparr>last_updated_time := now\<rparr>) = r"
    and "amount (if M = model then model else M\<lparr>last_updated_time := now\<rparr>) = a"
    and "platform (if M = model then model else M\<lparr>last_updated_time := now\<rparr>) = p"
    and "crypto_currency (if M = model then model else M\<lparr>last_updated_time := now\<rparr>) = c"
proof -
  have fields: "rate M = r \<and> amount M = a \<and> platform M = p \<and> crypto_currency M = c"
    by (simp add: M)
  show "rate (if M = model then model else M\<lparr>last_updated_time := now\<rparr>) = r"
    using fields by (cases "M = model") simp_all
  show "amount (if M = model then model else M\<lparr>last_updated_time := now\<rparr>) = a"
    using fields by (cases "M = model") simp_all
  show "platform (if M = model then model else M\<lparr>last_updated_time := now\<rparr>) = p"
    using fields by (cases "M = model") simp_all
  show "crypto_currency (if M = model then model else M\<lparr>last_updated_time := now\<rparr>) = c"
    using fields by (cases "M = model") simp_all
qed

lemma nats_upsert_item_row:
  assumes "rows w cur = Some model" and "w_currency item = Some cur"
    and "M = model\<lparr>rate := get_or (w_rate item) (rate model),
                  amount := get_or (w_amount item) (amount model),
                  platform := get_or (w_platform item) (platform model),
                  crypto_currency := get_or (w_crypto_currency item) (crypto_currency model)\<rparr>"
  shows "rows (snd (nats_upsert_item now item w)) cur =
           Some (if M = model then model else M\<lparr>last_updated_time := now\<rparr>)"
  using assms by (simp add: nats_upsert_item_def Let_def)

lemma upsert_item_row:
  assumes "rows w cur = Some model" and "d_rate data = Some r"
    and "\<not> fl_lt (fl_abs (fl_sub (rate model) r)) eps"
  shows "rows (snd (upsert_item cfg e now cur data w)) cur =
           Some (updated_item cfg now cur data r model)"
  using assms
  by (simp add: upsert_item_def Let_def emit_event_fields updated_item_def)

text \<open>
  Claim C3 does not hold as stated. \<open>USD\<close> is stored at rate 90 with amount 1; the received
  record repeats the rate 90 with amount 10. The replication upsert commits and stores
  amount 10, where the upsert of the cycle, given the same record, commits nothing and
  leaves amount 1.
\<close>

theorem replication_writes_within_tolerance:
  "rows world_usd ''USD'' = Some usd_item \<and> w_currency wire_same_rate = Some ''USD'' \<and>
   w_rate wire_same_rate = Some (Fin 90) \<and> rate usd_item = Fin 90 \<and>
   fl_lt (fl_abs (fl_sub (rate usd_item) (Fin 90))) eps \<and>
   commits world_usd = 0 \<and>
   commits (snd (nats_upsert_item 7 wire_same_rate world_usd)) = 1 \<and>
   map_option amount (rows (snd (nats_upsert_item 7 wire_same_rate world_usd)) ''USD'') = Some 10 \<and>
   d_rate data_same_rate = w_rate wire_same_rate \<and>
   d_amount data_same_rate = w_amount wire_same_rate \<and>
   d_platform data_same_rate = w_platform wire_same_rate \<and>
   commits (snd (upsert_item config0 env_ok 7 ''USD'' data_same_rate world_usd)) = 0 \<and>
   map_option amount (rows (snd (upsert_item config0 env_ok 7 ''USD'' data_same_rate world_usd)) ''USD'')
     = Some 1"
  by (simp add: world_usd_def world0_def usd_item_def wire_same_rate_def data_same_rate_def
      nats_upsert_item_def upsert_item_def close_rounded get_or_def Let_def)

text \<open>
  Claim C3, amended. When an item for the code exists, the replication upsert applies no
  tolerance: it always commits once and stores the received rate, amount, platform and
  crypto flag (the stored value where a field is absent). It stores the same rate, amount
  and platform as the upsert of the cycle does for the same record when the float test
  \<open>abs(r - r') < 1e-9\<close> of the cycle fails, in particular when the rates differ by at
  least \<open>1e-9\<close>.
\<close>

theorem replication_upsert_overwrites:
  assumes "rows w cur = Some model" and "w_currency item = Some cur"
  shows
    "fst (nats_upsert_item now item w) = None \<and>
     commits (snd (nats_upsert_item now item w)) = commits w + 1 \<and>
     map_option rate (rows (snd (nats_upsert_item now item w)) cur) =
       Some (get_or (w_rate item) (rate model)) \<and>
     map_option amount (rows (snd (nats_upsert_item now item w)) cur) =
       Some (get_or (w_amount item) (amount model)) \<and>
     map_option platform (rows (snd (nats_upsert_item now item w)) cur) =
       Some (get_or (w_platform item) (platform model)) \<and>
     map_option crypto_currency (rows (snd (nats_upsert_item now item w)) cur) =
       Some (get_or (w_crypto_currency item) (crypto_currency model)) \<and>
     (\<forall>data r. w_rate item = Some r \<and> d_rate data = Some r \<and> d_amount data = w_amount item \<and>
        d_platform data = w_platform item \<and>
        \<not> fl_lt (fl_abs (fl_sub (rate model) r)) eps \<longrightarrow>
        map_option rate (rows (snd (upsert_item cfg e now cur data w)) cur) =
          map_option rate (rows (snd (nats_upsert_item now item w)) cur) \<and>
        map_option amount (rows (snd (upsert_item cfg e now cur data w)) cur) =
          map_option amount (rows (snd (nats_upsert_item now item w)) cur) \<and>
        map_option platform (rows (snd (upsert_item cfg e now cur data w)) cur) =
          map_option platform (rows (snd (nats_upsert_item now item w)) cur)) \<and>
     (\<forall>data a b. rate model = Fin a \<and> w_rate item = Some (Fin b) \<and> d_rate data = Some (Fin b) \<and>
        d_amount data = w_amount item \<and> d_platform data = w_platform item \<and>
        1 / 10 ^ 9 \<le> \<bar>a - b\<bar> \<longrightarrow>
        map_option rate (rows (snd (upsert_item cfg e now cur data w)) cur) =
          map_option rate (rows (snd (nats_upsert_item now item w)) cur) \<and>
        map_option amount (rows (snd (upsert_item cfg e now cur data w)) cur) =
          map_option amount (rows (snd (nats_upsert_item now item w)) cur) \<and>
        map_option platform (rows (snd (upsert_item cfg e now cur data w)) cur) =
          map_option platform (rows (snd (nats_upsert_item now item w)) cur))"
proof -
  define M where "M = model\<lparr>rate := get_or (w_rate item) (rate model),
                  amount := get_or (w_amount item) (amount model),
                  platform := get_or (w_platform item) (platform model),
                  crypto_currency := get_or (w_crypto_currency item) (crypto_currency model)\<rparr>"
  note row = nats_upsert_item_row [OF assms M_def, of now]
  note fields = stamped_fields [OF M_def, of now]
  have sync: "rows (snd (upsert_item cfg e now cur data w)) cur =
                Some (updated_item cfg now cur data r model)"
    if "d_rate data = Some r" and "\<not> fl_lt (fl_abs (fl_sub (rate model) r)) eps" for data r
    using assms(1) that by (rule upsert_item_row)
  have gap: "rows (snd (upsert_item cfg e now cur data w)) cur =
                Some (updated_item cfg now cur data (Fin b) model)"
    if "d_rate data = Some (Fin b)" and "rate model = Fin a" and "1 / 10 ^ 9 \<le> \<bar>a - b\<bar>"
    for data a b
  proof -
    have "\<not> fl_lt (fl_abs (fl_sub (rate model) (Fin b))) eps"
      unfolding that(2) by (rule gap_not_close [OF that(3)])
    with that(1) show ?thesis by (rule sync)
  qed
  show ?thesis
    using nats_upsert_item_commits [OF assms(2), of now w]
    by (simp add: row fields sync gap updated_item_def get_or_def)
qed

theorem replication_upsert_overwrites_witness:
  "rows world_usd ''USD'' = Some usd_item \<and> w_currency wire_same_rate = Some ''USD'' \<and>
   commits (snd (nats_upsert_item 7 wire_same_rate world_usd)) = 1 \<and>
   map_option rate (rows (snd (nats_upsert_item 7 wire_same_rate world_usd)) ''USD'') =
     Some (Fin 90) \<and>
   map_option amount (rows (snd (nats_upsert_item 7 wire_same_rate world_usd)) ''USD'') = Some 10 \<and>
   map_option platform (rows (snd (nats_upsert_item 7 wire_same_rate world_usd)) ''USD'') =
     Some ''other'' \<and>
   map_option crypto_currency (rows (snd (nats_upsert_item 7 wire_same_rate world_usd)) ''USD'') =
     Some True \<and>
   w_rate wire_new_rate = Some (Fin (183 / 2)) \<and>
   d_rate data_new_rate = Some (Fin (183 / 2)) \<and>
   d_amount data_new_rate = w_amount wire_new_rate \<and>
   d_platform data_new_rate = w_platform wire_new_rate \<and>
   \<not> fl_lt (fl_abs (fl_sub (rate usd_item) (Fin (183 / 2)))) eps \<and>
   map_option rate (rows (snd (upsert_item config0 env_ok 7 ''USD'' data_new_rate world_usd)) ''USD'') =
     map_option rate (rows (snd (nats_upsert_item 7 wire_new_rate world_usd)) ''USD'')"
  using replication_upsert_overwrites [of world_usd "''USD''" usd_item wire_same_rate 7 config0 env_ok]
    replication_upsert_overwrites [of world_usd "''USD''" usd_item wire_new_rate 7 config0 env_ok]
  by (simp add: world_usd_def world0_def usd_item_def wire_same_rate_def wire_new_rate_def
      data_new_rate_def get_or_def nats_upsert_item_def upsert_item_def close_rounded Let_def
      emit_event_fields)

section \<open>Where the crypto flag comes from\<close>

lemma nats_upsert_item_flag:
  assumes "w_currency item = Some cur"
  shows "map_option crypto_currency (rows (snd (nats_upsert_item now item w)) cur) =
         Some (get_or (w_crypto_currency item)
                 (case rows w cur of None \<Rightarrow> False | Some m \<Rightarrow> crypto_currency m))"
proof (cases "rows w cur")
  case None
  with assms show ?thesis
    by (simp add: nats_upsert_item_def Let_def)
next
  case (Some model)
  define M where "M = model\<lparr>rate := get_or (w_rate item) (rate model),
                  amount := get_or (w_amount item) (amount model),
                  platform := get_or (w_platform item) (platform model),
                  crypto_currency := get_or (w_crypto_currency item) (crypto_currency model)\<rparr>"
  show ?thesis
    by (simp add: nats_upsert_item_row [OF Some assms M_def] stamped_fields [OF M_def] Some)
qed

lemma upsert_item_written:
  assumes "d_rate data = Some r"
    and "case rows w cur of None \<Rightarrow> True
         | Some it \<Rightarrow> \<not> fl_lt (fl_abs (fl_sub (rate it) r)) eps"
  shows "\<exists>item t. crypto_currency item = (cur \<in> set (CRYPTO_CODES cfg)) \<and>
           rows (snd (upsert_item cfg e now cur data w)) cur = Some item \<and>
           emitted (snd (upsert_item cfg e now cur data w)) = emitted w @ [payload_of t item]"
  using assms
  by (cases "rows w cur")
     (simp_all add: upsert_item_def Let_def emit_event_fields, blast+)

lemma parser_upsert_item_written:
  assumes "d_rate data = Some r"
    and "case rows w cur of None \<Rightarrow> True
         | Some it \<Rightarrow> \<not> fl_lt (fl_abs (fl_sub (rate it) r)) eps"
  shows "\<exists>item t. crypto_currency item = (cur \<in> set (CRYPTO_CODES cfg)) \<and>
           rows (snd (parser_upsert_item cfg e now cur data w)) cur = Some item \<and>
           emitted (snd (parser_upsert_item cfg e now cur data w)) = emitted w @ [payload_of t item]"
  using assms
  by (cases "rows w cur")
     (simp_all add: parser_upsert_item_def Let_def broadcast_event_fields, blast+)

lemma payload_flag:
  "map_option w_crypto_currency (ev_item (payload_of t item)) = Some (Some (crypto_currency item))"
  by (simp add: payload_of_def)

text \<open>
  Claim C7 does not hold as stated. \<open>USD\<close> is not among the configured crypto codes; a
  received event for \<open>USD\<close> whose item carries \<open>crypto_currency = true\<close> makes the
  replication path store the flag as true, both when it creates the item and when it
  updates it.
\<close>

theorem replicated_flag_from_payload:
  "''USD'' \<notin> set (CRYPTO_CODES config0) \<and>
   ev_item event_same_rate = Some wire_same_rate \<and>
   w_crypto_currency wire_same_rate = Some True \<and>
   map_option crypto_currency
     (rows (snd (on_message env_ok 7 (Object event_same_rate) world0)) ''USD'') = Some True \<and>
   map_option crypto_currency
     (rows (snd (on_message env_ok 7 (Object event_same_rate) world_usd)) ''USD'') = Some True"
  by (simp add: config0_def event_same_rate_def wire_same_rate_def world_usd_def world0_def
      usd_item_def on_message_eq broadcast_fields nats_upsert_item_def get_or_def Let_def)

text \<open>
  Claim C7, amended. Every item written by the upsert of a cycle (poller or older loop,
  created or updated) is stored and emitted with the crypto flag equal to the membership of
  its code in \<open>CRYPTO_CODES\<close>. The replication upsert stores the flag of the received
  payload; where the payload has none it stores false for a new item and keeps the stored
  flag of an existing one.
\<close>

theorem crypto_flag_by_path:
  "(d_rate data = Some r \<and>
    (case rows w cur of None \<Rightarrow> True
     | Some it \<Rightarrow> \<not> fl_lt (fl_abs (fl_sub (rate it) r)) eps) \<longrightarrow>
      map_option crypto_currency (rows (snd (upsert_item cfg e now cur data w)) cur) =
        Some (cur \<in> set (CRYPTO_CODES cfg)) \<and>
      map_option w_crypto_currency
        (ev_item (last (emitted (snd (upsert_item cfg e now cur data w))))) =
        Some (Some (cur \<in> set (CRYPTO_CODES cfg))) \<and>
      map_option crypto_currency (rows (snd (parser_upsert_item cfg e now cur data w)) cur) =
        Some (cur \<in> set (CRYPTO_CODES cfg)) \<and>
      map_option w_crypto_currency
        (ev_item (last (emitted (snd (parser_upsert_item cfg e now cur data w))))) =
        Some (Some (cur \<in> set (CRYPTO_CODES cfg)))) \<and>
   (w_currency item = Some cur \<longrightarrow>
      map_option crypto_currency (rows (snd (nats_upsert_item now item w)) cur) =
        Some (get_or (w_crypto_currency item)
                (case rows w cur of None \<Rightarrow> False | Some m \<Rightarrow> crypto_currency m)))"
proof (intro conjI impI)
  assume h: "d_rate data = Some r \<and>
    (case rows w cur of None \<Rightarrow> True
     | Some it \<Rightarrow> \<not> fl_lt (fl_abs (fl_sub (rate it) r)) eps)"
  obtain it t where p:
    "crypto_currency it = (cur \<in> set (CRYPTO_CODES cfg))"
    "rows (snd (upsert_item cfg e now cur data w)) cur = Some it"
    "emitted (snd (upsert_item cfg e now cur data w)) = emitted w @ [payload_of t it]"
    using upsert_item_written [of data r w cur cfg e now] h by blast
  obtain it' t' where q:
    "crypto_currency it' = (cur \<in> set (CRYPTO_CODES cfg))"
    "rows (snd (parser_upsert_item cfg e now cur data w)) cur = Some it'"
    "emitted (snd (parser_upsert_item cfg e now cur data w)) = emitted w @ [payload_of t' it']"
    using parser_upsert_item_written [of data r w cur cfg e now] h by blast
  show "map_option crypto_currency (rows (snd (upsert_item cfg e now cur data w)) cur) =
        Some (cur \<in> set (CRYPTO_CODES cfg))"
    by (simp add: p)
  show "map_option w_crypto_currency
        (ev_item (last (emitted (snd (upsert_item cfg e now cur data w))))) =
        Some (Some (cur \<in> set (CRYPTO_CODES cfg)))"
    by (simp only: p(3) last_snoc payload_flag p(1))
  show "map_option crypto_currency (rows (snd (parser_upsert_item cfg e now cur data w)) cur) =
        Some (cur \<in> set (CRYPTO_CODES cfg))"
    by (simp add: q)
  show "map_option w_crypto_currency
        (ev_item (last (emitted (snd (parser_upsert_item cfg e now cur data w))))) =
        Some (Some (cur \<in> set (CRYPTO_CODES cfg)))"
    by (simp only: q(3) last_snoc payload_flag q(1))
next
  assume "w_currency item = Some cur"
  then show "map_option crypto_currency (rows (snd (nats_upsert_item now item w)) cur) =
        Some (get_or (w_crypto_currency item)
                (case rows w cur of None \<Rightarrow> False | Some m \<Rightarrow> crypto_currency m))"
    by (rule nats_upsert_item_flag)
qed

theorem crypto_flag_by_path_witness:
  "d_rate data_new_rate = Some (Fin (183 / 2)) \<and>
   (case rows world_usd ''USD'' of None \<Rightarrow> True
    | Some it \<Rightarrow> \<not> fl_lt (fl_abs (fl_sub (rate it) (Fin (183 / 2)))) eps) \<and>
   map_option crypto_currency
     (rows (snd (upsert_item config0 env_ok 7 ''USD'' data_new_rate world_usd)) ''USD'') =
     Some False \<and>
   (case rows world0 ''BTC'' of None \<Rightarrow> True
    | Some it \<Rightarrow> \<not> fl_lt (fl_abs (fl_sub (rate it) (Fin (183 / 2)))) eps) \<and>
   map_option crypto_currency
     (rows (snd (upsert_item config0 env_ok 7 ''BTC'' data_new_rate world0)) ''BTC'') =
     Some True \<and>
   map_option w_crypto_currency
     (ev_item (last (emitted (snd (parser_upsert_item config0 env_ok 7 ''BTC'' data_new_rate world0))))) =
     Some (Some True) \<and>
   w_currency wire_same_rate = Some ''USD'' \<and>
   map_option crypto_currency (rows (snd (nats_upsert_item 7 wire_same_rate world_usd)) ''USD'') =
     Some True"
  using crypto_flag_by_path [of data_new_rate "Fin (183 / 2)" world_usd "''USD''" config0 env_ok 7
      wire_same_rate]
    crypto_flag_by_path [of data_new_rate "Fin (183 / 2)" world0 "''BTC''" config0 env_ok 7
      wire_same_rate]
  by (simp add: data_new_rate_def world_usd_def world0_def usd_item_def config0_def
      wire_same_rate_def get_or_def close_rounded)

section \<open>Failures of the publisher\<close>

lemma publish_result:
  "fst (publish e subj ev w) =
     (if nats_client w \<noteq> Some True \<and> \<not> nats_connect_ok e then Some NatsConnectError
      else if nats_publish_ok e \<and> nats_flush_ok e then None
      else Some NatsPublishError)"
  by (simp add: publish_def nats_connect_def Let_def)

lemma publish_logged:
  "fst (publish e subj ev w) = Some NatsPublishError \<Longrightarrow>
   last (log_lines (snd (publish e subj ev w))) = NatsPublishErrorLog subj"
  by (simp add: publish_def nats_connect_def Let_def split: if_splits)

lemma emit_event_caught:
  "fst (publish e ''items.updates'' (payload_of t item)
          (broadcast e (payload_of t item) (w\<lparr>emitted := emitted w @ [payload_of t item]\<rparr>))) \<noteq> None \<Longrightarrow>
   last (log_lines (emit_event e t item w)) = NatsPublishFailedLog"
  by (auto simp: emit_event_eq Let_def)

text \<open>
  Claim C8 does not hold as stated. With a client whose \<open>publish\<close> raises, the publisher's
  \<open>publish\<close> raises to its caller.
\<close>

theorem publish_raises_on_failure:
  "fst (publish env_publish_fails ''items.updates'' (payload_of ''updated'' usd_item) world0) =
     Some NatsPublishError"
  by (simp add: publish_result env_publish_fails_def env_ok_def world0_def)

text \<open>
  Claim C8, amended. \<open>publish\<close> returns normally exactly when the client is connected, or
  can be connected, and both \<open>client.publish\<close> and \<open>client.flush\<close> succeed. A failure of
  one of these two calls is printed and then raised to the caller; a failed reconnect is
  raised as well. The caller \<open>emit_event\<close> catches whatever \<open>publish\<close> raises and prints a
  line, so nothing reaches the cycle.
\<close>

theorem publish_logs_and_reraises:
  "fst (publish e subj ev w) =
     (if nats_client w \<noteq> Some True \<and> \<not> nats_connect_ok e then Some NatsConnectError
      else if nats_publish_ok e \<and> nats_flush_ok e then None
      else Some NatsPublishError) \<and>
   (fst (publish e subj ev w) = Some NatsPublishError \<longrightarrow>
      last (log_lines (snd (publish e subj ev w))) = NatsPublishErrorLog subj) \<and>
   ((nats_client w \<noteq> Some True \<and> \<not> nats_connect_ok e) \<or> \<not> nats_publish_ok e \<or> \<not> nats_flush_ok e \<longrightarrow>
      last (log_lines (emit_event e t item w)) = NatsPublishFailedLog)"
proof (intro conjI impI)
  show "fst (publish e subj ev w) =
     (if nats_client w \<noteq> Some True \<and> \<not> nats_connect_ok e then Some NatsConnectError
      else if nats_publish_ok e \<and> nats_flush_ok e then None
      else Some NatsPublishError)"
    by (rule publish_result)
next
  assume "fst (publish e subj ev w) = Some NatsPublishError"
  then show "last (log_lines (snd (publish e subj ev w))) = NatsPublishErrorLog subj"
    by (rule publish_logged)
next
  assume "(nats_client w \<noteq> Some True \<and> \<not> nats_connect_ok e) \<or> \<not> nats_publish_ok e \<or> \<not> nats_flush_ok e"
  then have "fst (publish e ''items.updates'' (payload_of t item)
          (broadcast e (payload_of t item) (w\<lparr>emitted := emitted w @ [payload_of t item]\<rparr>))) \<noteq> None"
    by (auto simp: publish_result broadcast_fields)
  then show "last (log_lines (emit_event e t item w)) = NatsPublishFailedLog"
    by (rule emit_event_caught)
qed

theorem publish_logs_and_reraises_witness:
  "fst (publish env_publish_fails ''items.updates'' (payload_of ''updated'' usd_item) world0) =
     Some NatsPublishError \<and>
   last (log_lines (snd (publish env_publish_fails ''items.updates''
                          (payload_of ''updated'' usd_item) world0))) =
     NatsPublishErrorLog ''items.updates'' \<and>
   \<not> nats_publish_ok env_publish_fails \<and>
   last (log_lines (emit_event env_publish_fails ''updated'' usd_item world0)) =
     NatsPublishFailedLog \<and>
   fst (publish env_ok ''items.updates'' (payload_of ''updated'' usd_item) world0) = None"
  using publish_logs_and_reraises [of env_publish_fails "''items.updates''"
      "payload_of ''updated'' usd_item" world0 "''updated''" usd_item]
    publish_logs_and_reraises [of env_ok "''items.updates''"
      "payload_of ''updated'' usd_item" world0 "''updated''" usd_item]
  by (simp add: env_publish_fails_def env_ok_def world0_def)

section \<open>The merge of a cycle\<close>

lemma dict_update_Cons:
  "dict_update rs ((k, v) # other) = dict_update (AList.update k v rs) other"
  by (simp add: dict_update_def)

lemma map_of_dict_update:
  "distinct (map fst other) \<Longrightarrow>
   map_of (dict_update rs other) k =
     (case map_of other k of Some v \<Rightarrow> Some v | None \<Rightarrow> map_of rs k)"
proof (induction other arbitrary: rs)
  case Nil
  show ?case by (simp add: dict_update_def)
next
  case (Cons kv other)
  obtain k1 v1 where kv: "kv = (k1, v1)" by (cases kv)
  from Cons.prems kv have d: "distinct (map fst other)" and n: "k1 \<notin> fst ` set other"
    by simp_all
  from n have none: "map_of other k1 = None"
    by (simp add: map_of_eq_None_iff)
  show ?case
    using Cons.IH [OF d, of "AList.update k1 v1 rs"] none
    by (simp add: kv dict_update_Cons update_conv' split: option.splits)
qed

lemma keys_dict_update:
  "fst ` set (dict_update rs other) = fst ` set rs \<union> fst ` set other"
proof (induction other arbitrary: rs)
  case Nil
  show ?case by (simp add: dict_update_def)
next
  case (Cons kv other)
  obtain k1 v1 where kv: "kv = (k1, v1)" by (cases kv)
  show ?case
    using Cons.IH [of "AList.update k1 v1 rs"]
    by (auto simp: kv dict_update_Cons dom_update)
qed

text \<open>
  Claim C2 does not hold as stated. When \<open>BTC\<close> is in the fixed-income map at rate 100 and
  in the crypto map at rate 200, the merged map holds the crypto entry for \<open>BTC\<close>, not the
  fixed-income one.
\<close>

theorem merge_crypto_overwrites:
  "map_of cbr_with_btc ''BTC'' =
     Some \<lparr>d_rate = Some (Fin 100), d_amount = Some 1, d_platform = Some ''CBR''\<rparr> \<and>
   map_of crypto_with_btc ''BTC'' =
     Some \<lparr>d_rate = Some (Fin 200), d_amount = Some 1, d_platform = Some ''Binance''\<rparr> \<and>
   map_of (merge_rates cbr_with_btc crypto_with_btc) ''BTC'' =
     Some \<lparr>d_rate = Some (Fin 200), d_amount = Some 1, d_platform = Some ''Binance''\<rparr> \<and>
   map_of (merge_rates cbr_with_btc crypto_with_btc) ''BTC'' \<noteq> map_of cbr_with_btc ''BTC''"
  by (simp add: merge_rates_def dict_update_def cbr_with_btc_def crypto_with_btc_def)

text \<open>
  Claim C2, amended. The merge of a cycle, \<open>{**rates, **crypto}\<close>, is a map union keyed by
  code: its codes are those of both maps, and for a code present in both the crypto entry
  is kept; a fixed-income entry survives only for a code the crypto map does not have.
\<close>

theorem merge_is_right_biased_union:
  assumes "distinct (map fst crypto)"
  shows "fst ` set (merge_rates cbr crypto) = fst ` set cbr \<union> fst ` set crypto \<and>
         map_of (merge_rates cbr crypto) code =
           (case map_of crypto code of Some d \<Rightarrow> Some d | None \<Rightarrow> map_of cbr code)"
  using assms by (simp add: merge_rates_def keys_dict_update map_of_dict_update)

theorem merge_is_right_biased_union_witness:
  "distinct (map fst crypto_with_btc) \<and>
   fst ` set (merge_rates cbr_with_btc crypto_with_btc) = {''RUB'', ''BTC''} \<and>
   map_of (merge_rates cbr_with_btc crypto_with_btc) ''BTC'' = map_of crypto_with_btc ''BTC'' \<and>
   map_of (merge_rates cbr_with_btc crypto_with_btc) ''RUB'' = map_of cbr_with_btc ''RUB''"
  using merge_is_right_biased_union [of crypto_with_btc cbr_with_btc "''BTC''"]
    merge_is_right_biased_union [of crypto_with_btc cbr_with_btc "''RUB''"]
  by (auto simp: cbr_with_btc_def crypto_with_btc_def)

section \<open>The normaliser on concrete documents\<close>

lemma strip_usd: "strip ''USD'' = ''USD''"
  by (simp add: strip_def is_space_def)

text \<open>
  Claim C9, evaluated. An entry for the allowed code \<open>USD\<close> that has a \<open>Value\<close> node and
  no \<open>VunitRate\<close> node is skipped: the \<open>Value\<close> element has no children, so it counts as
  false in \<open>find("Value") or find("VunitRate")\<close>, the second lookup gives \<open>None\<close> and the
  read of its text is caught. With both nodes present the rate is read from \<open>VunitRate\<close>,
  the second tag, not from \<open>Value\<close>. An entry whose \<open>amount\<close> node reads 0 makes the
  function raise \<open>ZeroDivisionError\<close>.
\<close>

theorem parse_cbr_xml_slips:
  "parse_cbr_xml lib0 config0 (Some doc_value_only) [''USD''] = Inr [] \<and>
   parse_cbr_xml lib0 config0 (Some doc_both_nodes) [''USD''] =
     Inr [(''USD'', \<lparr>d_rate = Some (Fin (181 / 2)), d_amount = Some 1,
                    d_platform = Some ''CBR''\<rparr>)] \<and>
   parse_cbr_xml lib0 config0 (Some doc_zero_amount) [''USD''] = Inl ZeroDivisionError"
  by (simp add: parse_cbr_xml_def findall_def doc_value_only_def doc_both_nodes_def
      doc_zero_amount_def find_child_def py_or_def truthy_def read_value_def read_amount_def
      replace_comma_def lib0_def config0_def strip_usd py_truediv_def round_double_one
      round_double_90_5 round_double_def [of 0])


section \<open>The fallback of the fixed-income fetch\<close>

text \<open>
  Claim C6, evaluated. When the request fails, \<open>fetch_cbr\<close> of the poller returns the single
  entry \<open>RUB\<close> at rate 1, and \<open>fetch_cbr_rates_sync\<close> of the older loop returns the single
  entry \<open>RUB\<close> at rate 80.
\<close>

theorem fallback_rates_differ:
  "cbr_reply env_ok None = HttpFailed \<and>
   fst (fetch_cbr lib0 config0 env_ok (CURRENCY config0) world0) =
     Inr [(''RUB'', \<lparr>d_rate = Some (Fin 1), d_amount = Some 1, d_platform = Some ''CBR''\<rparr>)] \<and>
   rates_cache world0 (format_cbr_date date0) = None \<and>
   cbr_reply env_ok (Some (format_cbr_date date0)) = HttpFailed \<and>
   fst (fetch_cbr_rates_sync lib0 config0 env_ok date0 world0) =
     Inr [(''RUB'', \<lparr>d_rate = Some (Fin 80), d_amount = Some 1, d_platform = Some ''CBR''\<rparr>)]"
  by (simp add: fetch_cbr_def fetch_cbr_rates_sync_def env_ok_def world0_def base_entry_def
      config0_def Let_def)

section \<open>The cache of the older loop\<close>

lemma fetch_cbr_rates_sync_cached:
  "rates_cache w (format_cbr_date dt) = Some m \<Longrightarrow>
   fetch_cbr_rates_sync lib cfg e dt w = (Inr m, w)"
  by (simp add: fetch_cbr_rates_sync_def Let_def)

lemma fetch_cbr_rates_sync_stores:
  "fetch_cbr_rates_sync lib cfg e dt w = (Inr m, w') \<Longrightarrow>
   rates_cache w' (format_cbr_date dt) = Some m"
  by (auto simp: fetch_cbr_rates_sync_def Let_def split: option.splits http_reply.splits sum.splits)

lemma fetch_cbr_rates_sync_failed:
  assumes "rates_cache w (format_cbr_date dt) = None"
    and "cbr_reply e (Some (format_cbr_date dt)) = HttpFailed"
  shows "fetch_cbr_rates_sync lib cfg e dt w =
           (Inr (base_entry cfg 80),
            (print_line CbrErrorLog
               (w\<lparr>http_calls := http_calls w @ [CbrGet (Some (format_cbr_date dt))]\<rparr>))
            \<lparr>rates_cache := (rates_cache w)(format_cbr_date dt \<mapsto> base_entry cfg 80)\<rparr>)"
  using assms by (simp add: fetch_cbr_rates_sync_def Let_def)

text \<open>
  Claim C10. Once \<open>fetch_cbr_rates_sync\<close> has returned a map for a date, a second call for
  that date returns the same map and leaves the state as it is, so it makes no request,
  whatever the endpoint would answer now. When the first call finds nothing cached and its
  request fails, it makes one request, returns \<open>RUB\<close> at rate 80 and caches that map under
  the date; the second call returns it again without a request.
\<close>

theorem cached_fetch_is_replayed:
  "(fetch_cbr_rates_sync lib cfg e dt w = (Inr m, w') \<longrightarrow>
      fetch_cbr_rates_sync lib' cfg' e' dt w' = (Inr m, w') \<and>
      http_calls (snd (fetch_cbr_rates_sync lib' cfg' e' dt w')) = http_calls w') \<and>
   (rates_cache w (format_cbr_date dt) = None \<and>
    cbr_reply e (Some (format_cbr_date dt)) = HttpFailed \<longrightarrow>
      fst (fetch_cbr_rates_sync lib cfg e dt w) = Inr (base_entry cfg 80) \<and>
      http_calls (snd (fetch_cbr_rates_sync lib cfg e dt w)) =
        http_calls w @ [CbrGet (Some (format_cbr_date dt))] \<and>
      rates_cache (snd (fetch_cbr_rates_sync lib cfg e dt w)) (format_cbr_date dt) =
        Some (base_entry cfg 80) \<and>
      fetch_cbr_rates_sync lib' cfg' e' dt (snd (fetch_cbr_rates_sync lib cfg e dt w)) =
        (Inr (base_entry cfg 80), snd (fetch_cbr_rates_sync lib cfg e dt w)))"
proof (intro conjI impI)
  assume first: "fetch_cbr_rates_sync lib cfg e dt w = (Inr m, w')"
  then have "rates_cache w' (format_cbr_date dt) = Some m"
    by (rule fetch_cbr_rates_sync_stores)
  then show again: "fetch_cbr_rates_sync lib' cfg' e' dt w' = (Inr m, w')"
    by (rule fetch_cbr_rates_sync_cached)
  show "http_calls (snd (fetch_cbr_rates_sync lib' cfg' e' dt w')) = http_calls w'"
    by (simp add: again)
next
  assume h: "rates_cache w (format_cbr_date dt) = None \<and>
    cbr_reply e (Some (format_cbr_date dt)) = HttpFailed"
  note eq = fetch_cbr_rates_sync_failed [OF conjunct1 [OF h] conjunct2 [OF h], of lib cfg]
  show "fst (fetch_cbr_rates_sync lib cfg e dt w) = Inr (base_entry cfg 80)"
    by (simp add: eq)
  show "http_calls (snd (fetch_cbr_rates_sync lib cfg e dt w)) =
        http_calls w @ [CbrGet (Some (format_cbr_date dt))]"
    by (simp add: eq)
  show stored: "rates_cache (snd (fetch_cbr_rates_sync lib cfg e dt w)) (format_cbr_date dt) =
        Some (base_entry cfg 80)"
    by (simp add: eq)
  show "fetch_cbr_rates_sync lib' cfg' e' dt (snd (fetch_cbr_rates_sync lib cfg e dt w)) =
        (Inr (base_entry cfg 80), snd (fetch_cbr_rates_sync lib cfg e dt w))"
    using stored by (rule fetch_cbr_rates_sync_cached)
qed

theorem cached_fetch_is_replayed_witness:
  "rates_cache world0 (format_cbr_date date0) = None \<and>
   cbr_reply env_ok (Some (format_cbr_date date0)) = HttpFailed \<and>
   cbr_reply env_cbr_answers (Some (format_cbr_date date0)) = HttpOk (Some doc_both_nodes) \<and>
   fst (fetch_cbr_rates_sync lib0 config0 env_ok date0 world0) = Inr (base_entry config0 80) \<and>
   http_calls (snd (fetch_cbr_rates_sync lib0 config0 env_ok date0 world0)) =
     [CbrGet (Some (format_cbr_date date0))] \<and>
   fst (fetch_cbr_rates_sync lib0 config0 env_cbr_answers date0
          (snd (fetch_cbr_rates_sync lib0 config0 env_ok date0 world0))) =
     Inr (base_entry config0 80) \<and>
   http_calls (snd (fetch_cbr_rates_sync lib0 config0 env_cbr_answers date0
          (snd (fetch_cbr_rates_sync lib0 config0 env_ok date0 world0)))) =
     [CbrGet (Some (format_cbr_date date0))]"
proof -
  have first: "fetch_cbr_rates_sync lib0 config0 env_ok date0 world0 =
          (Inr (base_entry config0 80), snd (fetch_cbr_rates_sync lib0 config0 env_ok date0 world0))"
    by (simp add: fetch_cbr_rates_sync_def env_ok_def world0_def Let_def)
  show ?thesis
    using cached_fetch_is_replayed [of lib0 config0 env_ok date0 world0 "base_entry config0 80"
        "snd (fetch_cbr_rates_sync lib0 config0 env_ok date0 world0)" lib0 config0 env_cbr_answers]
      first
    by (simp add: env_ok_def world0_def env_cbr_answers_def)
qed


end
